theory Spec2Isabelle
  imports Main "HOL-Library.Word"
begin

unbundle bit_operations_syntax

section \<open>Data model of Core/Boot/Boot.cpp\<close>

type_synonym u8 = "8 word"
type_synonym u32 = "32 word"
type_synonym u64 = "64 word"

text \<open>Modelled from the spec: the enumerations \<open>DiscIO::Region\<close>,
  \<open>DiscIO::Platform\<close> and \<open>SConfig::EBootType\<close> are declared in headers;
  the constructors are the enumerators Boot.cpp names. \<open>BOOT_INVALID\<close> stands for any
  value outside the enumeration, which reaches the \<open>default:\<close> label of \<open>BootUp\<close>.\<close>

datatype Region = NTSC_J | NTSC_U | PAL | UNKNOWN_REGION

datatype Platform = GAMECUBE_DISC | WII_DISC | WII_WAD | ELF_OR_DOL

datatype EBootType =
  BOOT_ISO | BOOT_ELF | BOOT_DOL | BOOT_WII_NAND | BOOT_BS2 | BOOT_DFF | BOOT_INVALID

text \<open>The fields of the \<open>SConfig\<close> singleton that Boot.cpp reads (and, for \<open>bWii\<close>,
  writes). \<open>GetGameID\<close> is the value of the accessor of that name.\<close>

record SConfig =
  m_BootType :: EBootType
  m_strFilename :: string
  m_region :: Region
  bWii :: bool
  bPAL60 :: bool
  bHLE_BS2 :: bool
  bEnableDebugging :: bool
  m_strDVDRoot :: string
  m_strDefaultISO :: string
  m_strApploader :: string
  m_strBootROM :: string
  GetGameID :: string

text \<open>The special-purpose registers Boot.cpp names, as an enumeration (their numeric
  indices are declared in a header and play no role here).\<close>

datatype SPR =
  SPR_HID0 | SPR_HID4
  | SPR_IBAT0U | SPR_IBAT0L | SPR_IBAT3U | SPR_IBAT3L | SPR_IBAT4U | SPR_IBAT4L
  | SPR_DBAT0U | SPR_DBAT0L | SPR_DBAT1U | SPR_DBAT1L | SPR_DBAT3U | SPR_DBAT3L
  | SPR_DBAT4U | SPR_DBAT4L | SPR_DBAT5U | SPR_DBAT5L

text \<open>\<open>PowerPC::ppcState\<close>: the general-purpose registers \<open>gpr[0..31]\<close>, the program
  counter (the macro \<open>PC\<close>), the machine state register and the special-purpose
  registers.\<close>

record PowerPCState =
  gpr :: "nat \<Rightarrow> u32"
  pc :: u32
  msr :: u32
  spr :: "SPR \<Rightarrow> u32"

text \<open>Modelled from the spec: a mounted disc volume (\<open>DiscIO::IVolume\<close>) reports its
  platform type and reads bytes at an offset with optional decryption; \<open>None\<close> is a
  failed read.\<close>

record IVolume =
  GetVolumeType :: Platform
  Read :: "u64 \<Rightarrow> u32 \<Rightarrow> bool \<Rightarrow> u8 list option"

datatype alert =
  IPL_with_unknown_hash u32
  | IPL_found_in_wrong_directory Region Region
  | Starting_ISO_in_wrong_console_mode
  | Starting_DOL_in_wrong_console_mode
  | Tried_to_load_an_unknown_file_type

text \<open>Every call Boot.cpp makes on a service outside this file, with its arguments.
  The emulator state keeps the sequence of calls made so far.\<close>

datatype call =
  NOTICE_LOG string string
  | PanicAlertT alert
  | SymbolDB_Clear
  | VideoInterface_Preset bool
  | DVDInterface_SetVolumeName string
  | DVDInterface_SetVolumeDirectory string bool string string
  | Volume_Read u64 u32 bool
  | Memory_CopyToEmu u32 "u8 list"
  | Memory_Write_U32 u32 u32
  | PowerPC_DBATUpdated
  | PowerPC_IBATUpdated
  | EmulatedBS2 bool
  | EmulatedBS2_GC bool
  | PatchEngine_LoadPatches
  | PPCAnalyst_FindFunctions u32 u32
  | SignatureDB_Load string
  | SignatureDB_Apply
  | SignatureDB_Clear
  | HLE_PatchFunctions
  | HLE_PatchFixedFunctions
  | SymbolDB_LoadMap string
  | Host_NotifyMapLoaded
  | CDolLoader_Load string
  | SetupWiiMemory u64
  | Boot_ELF string
  | Boot_WiiWAD string
  | Debugger_AddAutoBreakpoints

text \<open>The emulator state Boot.cpp acts on: the configuration singleton, the active disc
  volume (\<open>None\<close>: no disc inside), guest memory as bytes by 32-bit address, the CPU
  register file, and the trace of service calls.\<close>

record emu =
  config :: SConfig
  volume :: "IVolume option"
  mem :: "u32 \<Rightarrow> u8"
  ppcState :: PowerPCState
  trace :: "call list"

text \<open>What \<open>CDolLoader\<close> reports about a file.\<close>

record CDolLoader =
  IsValid :: bool
  IsWii :: bool
  GetEntryPoint :: u32

datatype fault = BufferOverrun | OutOfRange

text \<open>The services Boot.cpp consumes, as parameters of the model.
  \<^item> \<open>ReadFileToString\<close>: the file's bytes, \<open>None\<close> when the read fails.
  \<^item> \<open>crc32\<close>: zlib's running checksum (previous value, bytes).
  \<^item> \<open>Descrambler\<close>: the opaque in-place transform; given the bytes of the range it
    yields the new byte at each index of the range.
  \<^item> \<open>CreateVolumeFromFilename\<close>, \<open>CreateVolumeFromDirectory\<close>: what a mount finds.
  \<^item> \<open>GetNANDLoader\<close>: the title id of the installed-title container at a path, \<open>None\<close>
    when the loader is not valid.
  \<^item> \<open>effect\<close> and \<open>answer\<close>: what a call on an opaque collaborator does to guest memory
    and the CPU registers, and the boolean it returns.\<close>

record ext =
  ReadFileToString :: "string \<Rightarrow> u8 list option"
  crc32 :: "u32 \<Rightarrow> u8 list \<Rightarrow> u32"
  Descrambler :: "u8 list \<Rightarrow> nat \<Rightarrow> u8"
  CreateVolumeFromFilename :: "string \<Rightarrow> IVolume option"
  CreateVolumeFromDirectory :: "string \<Rightarrow> bool \<Rightarrow> string \<Rightarrow> string \<Rightarrow> IVolume option"
  FileExists :: "string \<Rightarrow> bool"
  GetUserPath_D_MAPS_IDX :: string
  GetSysDirectory :: string
  MAPS_DIR :: string
  DIR_SEP :: string
  TOTALDB :: string
  GetNANDLoader :: "string \<Rightarrow> u64 option"
  DolLoader :: "string \<Rightarrow> CDolLoader"
  IsNTSC :: "Region \<Rightarrow> bool"
  effect :: "call \<Rightarrow> emu \<Rightarrow> (u32 \<Rightarrow> u8) \<times> PowerPCState"
  answer :: "call \<Rightarrow> emu \<Rightarrow> bool"

section \<open>Service calls\<close>

text \<open>A call that only notifies (an alert, a log line, a BAT-change notification): it
  is recorded and changes neither memory nor registers.\<close>

definition notify :: "call \<Rightarrow> emu \<Rightarrow> emu" where
  "notify c s = s\<lparr>trace := trace s @ [c]\<rparr>"

text \<open>A call on an opaque collaborator: it is recorded, guest memory and the register
  file become what the collaborator makes of them, and its boolean result is returned.
  The configuration is read-only for collaborators.\<close>

definition invoke :: "ext \<Rightarrow> call \<Rightarrow> emu \<Rightarrow> bool \<times> emu" where
  "invoke x c s =
     (answer x c s,
      s\<lparr>mem := fst (effect x c s), ppcState := snd (effect x c s), trace := trace s @ [c]\<rparr>)"

text \<open>Modelled from the spec: \<open>Memory::CopyToEmu\<close>, \<open>Memory::Write_U32\<close> and
  \<open>Memory::Read_U32\<close> of the emulated-memory service (bulk host-to-guest copy, word
  write and read). Byte \<open>i\<close> of the source lands at guest address \<open>address + i\<close>; words
  are stored big-endian.\<close>

definition CopyToEmu :: "u32 \<Rightarrow> u8 list \<Rightarrow> emu \<Rightarrow> emu" where
  "CopyToEmu address bytes s =
     s\<lparr>mem := (\<lambda>a. if unat (a - address) < length bytes then bytes ! unat (a - address)
                     else mem s a),
       trace := trace s @ [Memory_CopyToEmu address bytes]\<rparr>"

definition Write_U32 :: "u32 \<Rightarrow> u32 \<Rightarrow> emu \<Rightarrow> emu" where
  "Write_U32 var address s =
     s\<lparr>mem := (mem s)
         (address := ucast (drop_bit 24 var), address + 1 := ucast (drop_bit 16 var),
          address + 2 := ucast (drop_bit 8 var), address + 3 := ucast var),
       trace := trace s @ [Memory_Write_U32 var address]\<rparr>"

definition Read_U32 :: "u32 \<Rightarrow> emu \<Rightarrow> u32" where
  "Read_U32 address s =
     push_bit 24 (ucast (mem s address)) OR push_bit 16 (ucast (mem s (address + 1)))
     OR push_bit 8 (ucast (mem s (address + 2))) OR ucast (mem s (address + 3))"

text \<open>Modelled from the spec: \<open>DVDInterface::SetVolumeName\<close> and
  \<open>DVDInterface::SetVolumeDirectory\<close> mount by path or by directory; the active volume
  becomes what the mount found. \<open>DVDInterface::IsDiscInside\<close> reports presence.\<close>

definition SetVolumeName :: "ext \<Rightarrow> string \<Rightarrow> emu \<Rightarrow> emu" where
  "SetVolumeName x name s =
     s\<lparr>volume := CreateVolumeFromFilename x name,
       trace := trace s @ [DVDInterface_SetVolumeName name]\<rparr>"

definition SetVolumeDirectory :: "ext \<Rightarrow> string \<Rightarrow> bool \<Rightarrow> string \<Rightarrow> string \<Rightarrow> emu \<Rightarrow> emu" where
  "SetVolumeDirectory x root is_wii apploader dol s =
     s\<lparr>volume := CreateVolumeFromDirectory x root is_wii apploader dol,
       trace := trace s @ [DVDInterface_SetVolumeDirectory root is_wii apploader dol]\<rparr>"

definition IsDiscInside :: "emu \<Rightarrow> bool" where
  "IsDiscInside s = (volume s \<noteq> None)"

section \<open>CBoot::Load_BS2\<close>

definition USA_v1_0 :: u32 where "USA_v1_0 = 0x6D740AE7"
definition USA_v1_1 :: u32 where "USA_v1_1 = 0xD5E6FEEA"
definition USA_v1_2 :: u32 where "USA_v1_2 = 0x86573808"
definition BRA_v1_0 :: u32 where "BRA_v1_0 = 0x667D0B64"
definition JAP_v1_0 :: u32 where "JAP_v1_0 = 0x6DAC1F2A"
definition JAP_v1_1 :: u32 where "JAP_v1_1 = 0xD235E3F9"
definition PAL_v1_0 :: u32 where "PAL_v1_0 = 0x4F319F43"
definition PAL_v1_1 :: u32 where "PAL_v1_1 = 0xDD8CAB7C"
definition PAL_v1_2 :: u32 where "PAL_v1_2 = 0xAD1B7F16"

text \<open>The \<open>switch (ipl_hash)\<close>: the region, and the alert of the \<open>default:\<close> label.\<close>

definition classify_ipl :: "u32 \<Rightarrow> emu \<Rightarrow> Region \<times> emu" where
  "classify_ipl ipl_hash s =
     (if ipl_hash = USA_v1_0 \<or> ipl_hash = USA_v1_1 \<or> ipl_hash = USA_v1_2
         \<or> ipl_hash = BRA_v1_0 then (NTSC_U, s)
      else if ipl_hash = JAP_v1_0 \<or> ipl_hash = JAP_v1_1 then (NTSC_J, s)
      else if ipl_hash = PAL_v1_0 \<or> ipl_hash = PAL_v1_1 \<or> ipl_hash = PAL_v1_2
        then (PAL, s)
      else (UNKNOWN_REGION, notify (PanicAlertT (IPL_with_unknown_hash ipl_hash)) s))"

text \<open>The in-place call \<open>Descrambler(data + offset, len)\<close>: the bytes of the range are
  replaced, the others stay.\<close>

definition descramble_range :: "ext \<Rightarrow> nat \<Rightarrow> nat \<Rightarrow> u8 list \<Rightarrow> u8 list" where
  "descramble_range x offset len data =
     take offset data
     @ map (Descrambler x (take len (drop offset data))) [0..<len]
     @ drop (offset + len) data"

text \<open>The fifteen register assignments at the end of \<open>Load_BS2\<close>, in order.\<close>

definition bs2_registers :: "PowerPCState \<Rightarrow> PowerPCState" where
  "bs2_registers p =
     p\<lparr>gpr := (gpr p)(3 := 0xfff0001f, 4 := 0x00002030, 5 := 0x0000009c),
       msr := 0x00002030,
       spr := (spr p)
         (SPR_HID0 := 0x0011c464,
          SPR_IBAT0U := 0x80001fff, SPR_IBAT0L := 0x00000002,
          SPR_IBAT3U := 0xfff0001f, SPR_IBAT3L := 0xfff00001,
          SPR_DBAT0U := 0x80001fff, SPR_DBAT0L := 0x00000002,
          SPR_DBAT1U := 0xc0001fff, SPR_DBAT1L := 0x0000002a,
          SPR_DBAT3U := 0xfff0001f, SPR_DBAT3L := 0xfff00001)\<rparr>"

text \<open>\<open>Load_BS2\<close>. The buffer is a \<open>std::string\<close>: its characters are followed by a
  terminator 0 at index \<open>size()\<close>, which may be read but not written. An access beyond
  that (a file shorter than the ranges the function descrambles and copies) has no
  defined behaviour in the source; the model returns \<open>Inl BufferOverrun\<close> there. So
  the descrambled range must lie within the characters, and the second copy may read
  the terminator as its last byte. The length handed to \<open>crc32\<close> is the buffer size cast
  to 32 bits.\<close>

definition Load_BS2 :: "ext \<Rightarrow> string \<Rightarrow> emu \<Rightarrow> fault + bool \<times> emu" where
  "Load_BS2 x boot_rom_filename s =
     (case ReadFileToString x boot_rom_filename of
        None \<Rightarrow> Inr (False, s)
      | Some data \<Rightarrow>
          let ipl_hash0 = crc32 x 0 [];
              ipl_hash = crc32 x ipl_hash0 (take (unat (word_of_nat (length data) :: u32)) data);
              (ipl_region, s1) = classify_ipl ipl_hash s;
              boot_region = m_region (config s1);
              s2 = (if ipl_region \<noteq> UNKNOWN_REGION \<and> boot_region \<noteq> ipl_region
                    then notify (PanicAlertT (IPL_found_in_wrong_directory ipl_region boot_region)) s1
                    else s1)
          in if length data < 0x100 + 0x1AFE00 then Inl BufferOverrun
             else
               let data' = descramble_range x 0x100 0x1AFE00 data;
                   s3 = CopyToEmu 0x01200000 (take 0x700 (drop 0x100 data')) s2
               in if length (data' @ [0]) < 0x820 + 0x1AFE00 then Inl BufferOverrun
                  else
                    let s4 = CopyToEmu 0x01300000 (take 0x1AFE00 (drop 0x820 (data' @ [0]))) s3;
                        s5 = s4\<lparr>ppcState := bs2_registers (ppcState s4)\<rparr>;
                        s6 = notify PowerPC_DBATUpdated s5;
                        s7 = notify PowerPC_IBATUpdated s6;
                        s8 = s7\<lparr>ppcState := (ppcState s7)\<lparr>pc := 0x81200150\<rparr>\<rparr>
                    in Inr (True, s8))"

section \<open>CBoot::DVDRead and CBoot::Load_FST\<close>

text \<open>\<open>DVDRead\<close> on the volume \<open>DVDInterface::GetVolume()\<close> returned. The buffer is a
  zero-initialised vector of \<open>len\<close> bytes that the volume's read fills.\<close>

definition DVDRead :: "IVolume \<Rightarrow> u64 \<Rightarrow> u32 \<Rightarrow> u32 \<Rightarrow> bool \<Rightarrow> emu \<Rightarrow> bool \<times> emu" where
  "DVDRead vol dvd_offset output_address len decrypt s =
     (let s1 = notify (Volume_Read dvd_offset len decrypt) s
      in case Read vol dvd_offset len decrypt of
           None \<Rightarrow> (False, s1)
         | Some bytes \<Rightarrow>
             (True, CopyToEmu output_address
                      (take (unat len) (bytes @ replicate (unat len) 0)) s1))"

text \<open>Modelled from the spec: \<open>IVolume::ReadSwapped\<close> reads a 32-bit unsigned header
  field (stored big-endian on the disc) into \<open>*buffer\<close>; a failed read leaves the
  variable as it was.\<close>

definition be32 :: "u8 list \<Rightarrow> u32" where
  "be32 bytes =
     (let b = take 4 (bytes @ replicate 4 0)
      in push_bit 24 (ucast (b ! 0)) OR push_bit 16 (ucast (b ! 1))
         OR push_bit 8 (ucast (b ! 2)) OR ucast (b ! 3))"

definition ReadSwapped :: "IVolume \<Rightarrow> u64 \<Rightarrow> u32 \<Rightarrow> bool \<Rightarrow> emu \<Rightarrow> u32 \<times> emu" where
  "ReadSwapped vol offset buffer decrypt s =
     (let s1 = notify (Volume_Read offset 4 decrypt) s
      in case Read vol offset 4 decrypt of
           None \<Rightarrow> (buffer, s1)
         | Some bytes \<Rightarrow> (be32 bytes, s1))"

text \<open>Modelled from the spec: \<open>Common::AlignDown\<close> yields the greatest value not above
  \<open>value\<close> that is a multiple of \<open>align\<close>.\<close>

definition AlignDown :: "u32 \<Rightarrow> u32 \<Rightarrow> u32" where
  "AlignDown val align = val - val mod align"

text \<open>The expression assigned to \<open>arena_high\<close>, on 32-bit unsigned values.\<close>

definition arena_high_of :: "nat \<Rightarrow> u32 \<Rightarrow> u32" where
  "arena_high_of shift max_fst_size =
     AlignDown (0x817FFFFF - push_bit shift max_fst_size) 0x20"

definition Load_FST :: "bool \<Rightarrow> emu \<Rightarrow> emu" where
  "Load_FST is_wii s =
     (case volume s of
        None \<Rightarrow> s
      | Some vol \<Rightarrow>
          let s1 = snd (DVDRead vol 0 0 0x20 False s);
              s2 = Write_U32 (Read_U32 0x0000 s1) 0x3180 s1;
              shift = (if is_wii then 2 else 0);
              (fst_offset, s3) = ReadSwapped vol 0x0424 0 is_wii s2;
              (fst_size, s4) = ReadSwapped vol 0x0428 0 is_wii s3;
              (max_fst_size, s5) = ReadSwapped vol 0x042c 0 is_wii s4;
              arena_high = arena_high_of shift max_fst_size;
              s6 = Write_U32 arena_high 0x00000034 s5;
              s7 = snd (DVDRead vol (ucast (push_bit shift fst_offset)) arena_high
                          (push_bit shift fst_size) is_wii s6);
              s8 = Write_U32 arena_high 0x00000038 s7
          in Write_U32 (push_bit shift max_fst_size) 0x0000003c s8)"

section \<open>CBoot::FindMapFile and CBoot::LoadMapFromFilename\<close>

text \<open>\<open>std::string\<close> positions are \<open>size_t\<close>, 64 bits wide; \<open>npos\<close> is its greatest
  value. \<open>find_last_of\<close> with a one-character set yields the last position of that
  character, else \<open>npos\<close>. \<open>substr\<close> throws \<open>out_of_range\<close> when the position lies
  beyond the size, else yields at most \<open>n\<close> characters from the position.\<close>

definition npos :: u64 where
  "npos = - 1"

primrec find_last_from :: "string \<Rightarrow> char \<Rightarrow> nat \<Rightarrow> u64 \<Rightarrow> u64" where
  "find_last_from [] c i found = found"
| "find_last_from (ch # rest) c i found =
     find_last_from rest c (Suc i) (if ch = c then word_of_nat i else found)"

definition find_last_of :: "string \<Rightarrow> char \<Rightarrow> u64" where
  "find_last_of str c = find_last_from str c 0 npos"

definition substr :: "string \<Rightarrow> u64 \<Rightarrow> u64 \<Rightarrow> fault + string" where
  "substr str pos n =
     (if length str < unat pos then Inl OutOfRange
      else Inr (take (unat n) (drop (unat pos) str)))"

text \<open>\<open>StringFromFormat("%08X", v)\<close> on a 32-bit value: eight upper-case hexadecimal
  digits, most significant first.\<close>

definition hex_digit :: "nat \<Rightarrow> char" where
  "hex_digit d = ''0123456789ABCDEF'' ! d"

definition format_08X :: "u32 \<Rightarrow> string" where
  "format_08X v = map (\<lambda>k. hex_digit (unat (drop_bit (4 * k) v AND 0xF))) [7, 6, 5, 4, 3, 2, 1, 0]"

text \<open>The \<open>BOOT_ELF\<close>/\<open>BOOT_DOL\<close> case: the name begins after the last \<open>/\<close> or after
  the last backslash, whichever is later; the count handed to \<open>substr\<close> is
  \<open>size - 4 - name_begin_index\<close> in \<open>size_t\<close> arithmetic, which wraps.\<close>

definition dol_elf_title :: "string \<Rightarrow> fault + string" where
  "dol_elf_title filename =
     (let name_begin_index0 = find_last_of filename (CHR ''/'') + 1;
          name_begin_index =
            (if find_last_of filename (CHR 0x5C) + 1 > name_begin_index0
             then find_last_of filename (CHR 0x5C) + 1 else name_begin_index0)
      in substr filename name_begin_index
           (word_of_nat (length filename) - 4 - name_begin_index))"

text \<open>The title id string computed by the \<open>switch\<close> at the head of \<open>FindMapFile\<close>.\<close>

definition title_id_str :: "ext \<Rightarrow> SConfig \<Rightarrow> fault + string" where
  "title_id_str x para =
     (case m_BootType para of
        BOOT_WII_NAND \<Rightarrow>
          (case GetNANDLoader x (m_strFilename para) of
             None \<Rightarrow> Inr []
           | Some TitleID \<Rightarrow>
               Inr (format_08X ((ucast (drop_bit 32 TitleID) :: u32) AND 0xFFFFFFFF)
                    @ ''_'' @ format_08X ((ucast TitleID :: u32) AND 0xFFFFFFFF)))
      | BOOT_ELF \<Rightarrow> dol_elf_title (m_strFilename para)
      | BOOT_DOL \<Rightarrow> dol_elf_title (m_strFilename para)
      | _ \<Rightarrow> Inr (GetGameID para))"

text \<open>The search loop over \<open>maps_directories\<close>: the first directory holding the map
  wins and ends the search.\<close>

primrec search_maps :: "ext \<Rightarrow> string list \<Rightarrow> string \<Rightarrow> string option" where
  "search_maps x [] title = None"
| "search_maps x (dir # dirs) title =
     (if FileExists x (dir @ title @ ''.map'') then Some (dir @ title @ ''.map'')
      else search_maps x dirs title)"

text \<open>\<open>FindMapFile\<close> yields the existing map file (\<open>None\<close>: not found, the function
  returns false), the writable map file and the title id.\<close>

definition FindMapFile :: "ext \<Rightarrow> emu \<Rightarrow> fault + string option \<times> string \<times> string" where
  "FindMapFile x s =
     (case title_id_str x (config s) of
        Inl e \<Rightarrow> Inl e
      | Inr title \<Rightarrow>
          Inr (search_maps x
                 [GetUserPath_D_MAPS_IDX x, GetSysDirectory x @ MAPS_DIR x @ DIR_SEP x] title,
               GetUserPath_D_MAPS_IDX x @ title @ ''.map'',
               title))"

definition LoadMapFromFilename :: "ext \<Rightarrow> emu \<Rightarrow> fault + bool \<times> emu" where
  "LoadMapFromFilename x s =
     (case FindMapFile x s of
        Inl e \<Rightarrow> Inl e
      | Inr (existing_map_file, _) \<Rightarrow>
          (case existing_map_file of
             None \<Rightarrow> Inr (False, s)
           | Some strMapFilename \<Rightarrow>
               let (loaded, s1) = invoke x (SymbolDB_LoadMap strMapFilename) s
               in if loaded then Inr (True, snd (invoke x Host_NotifyMapLoaded s1))
                  else Inr (False, s1)))"

text \<open>The recurring statement \<open>if (LoadMapFromFilename()) HLE::PatchFunctions();\<close>.\<close>

definition load_map_and_patch :: "ext \<Rightarrow> emu \<Rightarrow> fault + emu" where
  "load_map_and_patch x s =
     (case LoadMapFromFilename x s of
        Inl e \<Rightarrow> Inl e
      | Inr (loaded, s1) \<Rightarrow>
          Inr (if loaded then snd (invoke x HLE_PatchFunctions s1) else s1))"

section \<open>CBoot::BootUp\<close>

text \<open>Modelled from the spec: the bit fields \<open>FP\<close>, \<open>DR\<close>, \<open>IR\<close> and \<open>EE\<close> of \<open>UReg_MSR\<close>
  (floating point, data and instruction address translation, external exceptions) and
  \<open>SBE\<close> of \<open>UReg_HID4\<close> are declared in a header; they sit at the bits the PowerPC
  architecture gives them.\<close>

definition MSR_FP :: u32 where "MSR_FP = 0x2000"
definition MSR_DR :: u32 where "MSR_DR = 0x10"
definition MSR_IR :: u32 where "MSR_IR = 0x20"
definition MSR_EE :: u32 where "MSR_EE = 0x8000"
definition HID4_SBE :: u32 where "HID4_SBE = 0x02000000"

text \<open>The mount shared by the DOL, ELF and installed-title cases: a directory as a
  virtual disc when a root is given, else the default disc image when one is given.\<close>

definition mount_root_or_default ::
  "ext \<Rightarrow> bool \<Rightarrow> bool \<Rightarrow> string \<Rightarrow> string \<Rightarrow> emu \<Rightarrow> emu" where
  "mount_root_or_default x logged is_wii apploader dol s =
     (let para = config s
      in if m_strDVDRoot para \<noteq> [] then
           SetVolumeDirectory x (m_strDVDRoot para) is_wii apploader dol
             (if logged then notify (NOTICE_LOG ''Setting DVDRoot %s'' (m_strDVDRoot para)) s
              else s)
         else if m_strDefaultISO para \<noteq> [] then
           SetVolumeName x (m_strDefaultISO para)
             (if logged then notify (NOTICE_LOG ''Loading default ISO %s'' (m_strDefaultISO para)) s
              else s)
         else s)"

text \<open>\<open>case SConfig::BOOT_ISO\<close>. The boolean of each case is false where the source
  returns false from inside the \<open>switch\<close>, true where it reaches \<open>break\<close>.\<close>

definition bring_up_ISO :: "ext \<Rightarrow> emu \<Rightarrow> fault + emu" where
  "bring_up_ISO x s =
     (if bHLE_BS2 (config s) then Inr (snd (invoke x (EmulatedBS2 (bWii (config s))) s))
      else
        (case Load_BS2 x (m_strBootROM (config s)) s of
           Inl e \<Rightarrow> Inl e
         | Inr (loaded, s1) \<Rightarrow>
             if \<not> loaded then Inr (snd (invoke x (EmulatedBS2 (bWii (config s1))) s1))
             else Inr s1))"

definition scan_HLE_functions :: "ext \<Rightarrow> emu \<Rightarrow> emu" where
  "scan_HLE_functions x s =
     (if bHLE_BS2 (config s) \<and> \<not> bEnableDebugging (config s) then
        let s1 = snd (invoke x (PPCAnalyst_FindFunctions 0x80004000 0x811fffff) s);
            (loaded, s2) = invoke x (SignatureDB_Load (GetSysDirectory x @ TOTALDB x)) s1
        in if loaded then
             let s3 = snd (invoke x SignatureDB_Apply s2);
                 s4 = snd (invoke x HLE_PatchFunctions s3)
             in snd (invoke x SignatureDB_Clear s4)
           else s2
      else s)"

definition BootUp_ISO :: "ext \<Rightarrow> emu \<Rightarrow> fault + bool \<times> emu" where
  "BootUp_ISO x s =
     (let s1 = SetVolumeName x (m_strFilename (config s)) s
      in case volume s1 of
           None \<Rightarrow> Inr (False, s1)
         | Some pVolume \<Rightarrow>
             let s2 = (if (GetVolumeType pVolume = WII_DISC) \<noteq> bWii (config s1)
                       then notify (PanicAlertT Starting_ISO_in_wrong_console_mode) s1
                       else s1);
                 s3 = s2\<lparr>config := (config s2)\<lparr>bWii := (GetVolumeType pVolume = WII_DISC)\<rparr>\<rparr>
             in case bring_up_ISO x s3 of
                  Inl e \<Rightarrow> Inl e
                | Inr s4 \<Rightarrow>
                    let s5 = snd (invoke x PatchEngine_LoadPatches s4);
                        s6 = scan_HLE_functions x s5
                    in case load_map_and_patch x s6 of
                         Inl e \<Rightarrow> Inl e
                       | Inr s7 \<Rightarrow> Inr (True, s7))"

text \<open>\<open>case SConfig::BOOT_DOL\<close>.\<close>

definition dol_registers :: "bool \<Rightarrow> PowerPCState \<Rightarrow> PowerPCState" where
  "dol_registers is_wii p =
     (let sprs = (spr p)
            (SPR_IBAT0U := 0x80001fff, SPR_IBAT0L := 0x00000002,
             SPR_IBAT4U := 0x90001fff, SPR_IBAT4L := 0x10000002,
             SPR_DBAT0U := 0x80001fff, SPR_DBAT0L := 0x00000002,
             SPR_DBAT1U := 0xc0001fff, SPR_DBAT1L := 0x0000002a,
             SPR_DBAT4U := 0x90001fff, SPR_DBAT4L := 0x10000002,
             SPR_DBAT5U := 0xd0001fff, SPR_DBAT5L := 0x1000002a)
      in p\<lparr>msr := msr p OR MSR_FP OR MSR_DR OR MSR_IR OR MSR_EE,
           spr := (if is_wii then sprs(SPR_HID4 := sprs SPR_HID4 OR HID4_SBE) else sprs)\<rparr>)"

definition BootUp_DOL :: "ext \<Rightarrow> emu \<Rightarrow> fault + bool \<times> emu" where
  "BootUp_DOL x s =
     (let dolLoader = DolLoader x (m_strFilename (config s))
      in if \<not> IsValid dolLoader then Inr (False, s)
         else
           let dolWii = IsWii dolLoader;
               s1 = (if dolWii \<noteq> bWii (config s)
                     then notify (PanicAlertT Starting_DOL_in_wrong_console_mode) s else s);
               s2 = mount_root_or_default x True dolWii (m_strApploader (config s1))
                      (m_strFilename (config s1)) s1;
               (hle, s3) = invoke x (EmulatedBS2 dolWii) s2;
               s4 = (if \<not> hle then
                       let a1 = s3\<lparr>ppcState := dol_registers (IsWii dolLoader) (ppcState s3)\<rparr>;
                           a2 = notify PowerPC_DBATUpdated a1;
                           a3 = notify PowerPC_IBATUpdated a2;
                           a4 = (if IsWii dolLoader
                                 then snd (invoke x (SetupWiiMemory 0x000000010000003a) a3)
                                 else a3);
                           a5 = snd (invoke x (CDolLoader_Load (m_strFilename (config a4))) a4)
                       in a5\<lparr>ppcState := (ppcState a5)\<lparr>pc := GetEntryPoint dolLoader\<rparr>\<rparr>
                     else s3)
           in case load_map_and_patch x s4 of
                Inl e \<Rightarrow> Inl e
              | Inr s5 \<Rightarrow> Inr (True, s5))"

text \<open>\<open>case SConfig::BOOT_ELF\<close>.\<close>

definition BootUp_ELF :: "ext \<Rightarrow> emu \<Rightarrow> fault + bool \<times> emu" where
  "BootUp_ELF x s =
     (let s1 = mount_root_or_default x True (bWii (config s)) [] [] s;
          s2 = (if bWii (config s1)
                then snd (invoke x (SetupWiiMemory 0x000000010000003a) s1)
                else snd (invoke x (EmulatedBS2_GC True) s1));
          s3 = Load_FST (bWii (config s2)) s2;
          (loaded, s4) = invoke x (Boot_ELF (m_strFilename (config s3))) s3
      in if \<not> loaded then Inr (False, s4)
         else
           let s5 = snd (invoke x Host_NotifyMapLoaded s4)
           in Inr (True, snd (invoke x Debugger_AddAutoBreakpoints s5)))"

text \<open>\<open>case SConfig::BOOT_WII_NAND\<close>. The value \<open>Boot_WiiWAD\<close> returns is not used.\<close>

definition BootUp_WII_NAND :: "ext \<Rightarrow> emu \<Rightarrow> fault + bool \<times> emu" where
  "BootUp_WII_NAND x s =
     (let s1 = snd (invoke x (Boot_WiiWAD (m_strFilename (config s))) s);
          s2 = snd (invoke x PatchEngine_LoadPatches s1)
      in case load_map_and_patch x s2 of
           Inl e \<Rightarrow> Inl e
         | Inr s3 \<Rightarrow> Inr (True, mount_root_or_default x False True [] [] s3))"

text \<open>\<open>case SConfig::BOOT_BS2\<close>.\<close>

definition BootUp_BS2 :: "ext \<Rightarrow> emu \<Rightarrow> fault + bool \<times> emu" where
  "BootUp_BS2 x s =
     (case Load_BS2 x (m_strBootROM (config s)) s of
        Inl e \<Rightarrow> Inl e
      | Inr (loaded, s1) \<Rightarrow>
          if loaded then
            (case load_map_and_patch x s1 of
               Inl e \<Rightarrow> Inl e
             | Inr s2 \<Rightarrow> Inr (True, s2))
          else Inr (False, s1))"

text \<open>The \<open>switch (_StartupPara.m_BootType)\<close>.\<close>

definition dispatch :: "ext \<Rightarrow> emu \<Rightarrow> fault + bool \<times> emu" where
  "dispatch x s =
     (case m_BootType (config s) of
        BOOT_ISO \<Rightarrow> BootUp_ISO x s
      | BOOT_DOL \<Rightarrow> BootUp_DOL x s
      | BOOT_ELF \<Rightarrow> BootUp_ELF x s
      | BOOT_WII_NAND \<Rightarrow> BootUp_WII_NAND x s
      | BOOT_BS2 \<Rightarrow> BootUp_BS2 x s
      | BOOT_DFF \<Rightarrow> Inr (True, s)
      | BOOT_INVALID \<Rightarrow> Inr (False, notify (PanicAlertT Tried_to_load_an_unknown_file_type) s))"

definition BootUp :: "ext \<Rightarrow> emu \<Rightarrow> fault + bool \<times> emu" where
  "BootUp x s =
     (let s1 = notify (NOTICE_LOG ''Booting %s'' (m_strFilename (config s))) s;
          s2 = snd (invoke x SymbolDB_Clear s1);
          s3 = snd (invoke x (VideoInterface_Preset
                      (IsNTSC x (m_region (config s2))
                       \<or> (bWii (config s2) \<and> bPAL60 (config s2)))) s2)
      in case dispatch x s3 of
           Inl e \<Rightarrow> Inl e
         | Inr (ok, s4) \<Rightarrow>
             if ok then Inr (True, snd (invoke x HLE_PatchFixedFunctions s4))
             else Inr (False, s4))"

text \<open>The calls \<open>LoadMapFromFilename\<close> and the patching that follows it can make.\<close>

definition map_calls :: "call set" where
  "map_calls = range SymbolDB_LoadMap \<union> {Host_NotifyMapLoaded, HLE_PatchFunctions}"

section \<open>The documented checksum table and the documented title-id rules\<close>

text \<open>The nine known firmware checksums with their regions, as a table; a checksum
  outside the table has the unknown region. This is the statement of the table, to be
  compared with the \<open>switch\<close> of \<open>Load_BS2\<close>.\<close>

definition documented_checksums :: "(u32 \<times> Region) list" where
  "documented_checksums =
     [(0x6D740AE7, NTSC_U), (0xD5E6FEEA, NTSC_U), (0x86573808, NTSC_U), (0x667D0B64, NTSC_U),
      (0x6DAC1F2A, NTSC_J), (0xD235E3F9, NTSC_J),
      (0x4F319F43, PAL), (0xDD8CAB7C, PAL), (0xAD1B7F16, PAL)]"

definition documented_region :: "u32 \<Rightarrow> Region" where
  "documented_region h =
     (case map_of documented_checksums h of Some r \<Rightarrow> r | None \<Rightarrow> UNKNOWN_REGION)"

text \<open>The title-id rules in the words of the specification: the file name is what
  follows the last path separator of either convention; the title id of an executable
  is the file name without its last four characters; a group of the installed-title id
  is the eight hexadecimal digits of a number below \<open>16 ^ 8\<close>, most significant first.\<close>

definition is_separator :: "char \<Rightarrow> bool" where
  "is_separator c = (c = CHR ''/'' \<or> c = CHR 0x5C)"

definition file_name_of :: "string \<Rightarrow> string" where
  "file_name_of path = rev (takeWhile (\<lambda>c. \<not> is_separator c) (rev path))"

definition without_extension :: "string \<Rightarrow> string" where
  "without_extension name = take (length name - 4) name"

definition hex_group :: "nat \<Rightarrow> string" where
  "hex_group n = map (\<lambda>k. ''0123456789ABCDEF'' ! (n div 16 ^ k mod 16)) [7, 6, 5, 4, 3, 2, 1, 0]"

section \<open>Sample services, configurations and states\<close>

definition sample_ipl :: "u8 list" where
  "sample_ipl = replicate 0x200000 0"

definition sample_volume :: IVolume where
  "sample_volume =
     \<lparr>GetVolumeType = GAMECUBE_DISC, Read = (\<lambda>offset len decrypt. Some (replicate (unat len) 0))\<rparr>"

definition sample_ext :: ext where
  "sample_ext =
     \<lparr>ReadFileToString = (\<lambda>p. if p = ''ipl.bin'' then Some sample_ipl else None),
      crc32 = (\<lambda>c bytes. if bytes = [] then c else 0x4F319F43),
      Descrambler = (\<lambda>range i. range ! i XOR 0xFF),
      CreateVolumeFromFilename = (\<lambda>p. if p = ''game.iso'' then Some sample_volume else None),
      CreateVolumeFromDirectory = (\<lambda>root is_wii apploader dol. None),
      FileExists = (\<lambda>p. False),
      GetUserPath_D_MAPS_IDX = ''User/Maps/'',
      GetSysDirectory = ''Sys/'',
      MAPS_DIR = ''Maps'',
      DIR_SEP = ''/'',
      TOTALDB = ''totaldb.dsy'',
      GetNANDLoader = (\<lambda>p. if p = ''title.wad'' then Some 0x0001000248414241 else None),
      DolLoader = (\<lambda>p. \<lparr>IsValid = (p = ''C:/games/Foo.dol''), IsWii = False,
                           GetEntryPoint = 0x80003100\<rparr>),
      IsNTSC = (\<lambda>r. r = NTSC_J \<or> r = NTSC_U),
      effect = (\<lambda>c s. (mem s, ppcState s)),
      answer = (\<lambda>c s. False)\<rparr>"

definition sample_config :: "EBootType \<Rightarrow> string \<Rightarrow> SConfig" where
  "sample_config boot_type filename =
     \<lparr>m_BootType = boot_type, m_strFilename = filename, m_region = PAL, bWii = False,
      bPAL60 = False, bHLE_BS2 = False, bEnableDebugging = False, m_strDVDRoot = [],
      m_strDefaultISO = [], m_strApploader = [], m_strBootROM = ''missing.bin'',
      GetGameID = ''GALE01''\<rparr>"

definition sample_emu :: "SConfig \<Rightarrow> u32 \<Rightarrow> emu" where
  "sample_emu para fill =
     \<lparr>config = para, volume = None, mem = (\<lambda>a. 0),
      ppcState = \<lparr>gpr = (\<lambda>r. fill), pc = 0, msr = 0, spr = (\<lambda>r. 0)\<rparr>, trace = []\<rparr>"


definition returned :: "fault + bool \<times> emu \<Rightarrow> bool option" where
  "returned r = (case r of Inl e \<Rightarrow> None | Inr (ok, s) \<Rightarrow> Some ok)"

definition state_after :: "fault + bool \<times> emu \<Rightarrow> emu \<Rightarrow> emu" where
  "state_after r s = (case r of Inl e \<Rightarrow> s | Inr (ok, s') \<Rightarrow> s')"

section \<open>Properties of Load_BS2\<close>

text \<open>C3. \<open>Load_BS2\<close> on a path whose read fails returns false and leaves the whole
  emulator state as it was: guest memory, every CPU register, the program counter, and
  the trace of service calls (so no memory write and no other call was made).\<close>

theorem Load_BS2_unreadable:
  assumes "ReadFileToString x path = None"
  shows "Load_BS2 x path s = Inr (False, s)"
  using assms by (simp add: Load_BS2_def)

lemma length_descramble_range:
  "offset + len \<le> length data \<Longrightarrow> length (descramble_range x offset len data) = length data"
  by (simp add: descramble_range_def)

lemma classify_ipl_region: "fst (classify_ipl h s) = documented_region h"
  by (simp add: classify_ipl_def documented_region_def documented_checksums_def
      USA_v1_0_def USA_v1_1_def USA_v1_2_def BRA_v1_0_def JAP_v1_0_def JAP_v1_1_def
      PAL_v1_0_def PAL_v1_1_def PAL_v1_2_def)

lemma classify_ipl_state:
  "snd (classify_ipl h s) =
     (if documented_region h = UNKNOWN_REGION
      then notify (PanicAlertT (IPL_with_unknown_hash h)) s else s)"
  by (simp add: classify_ipl_def documented_region_def documented_checksums_def
      USA_v1_0_def USA_v1_1_def USA_v1_2_def BRA_v1_0_def JAP_v1_0_def JAP_v1_1_def
      PAL_v1_0_def PAL_v1_1_def PAL_v1_2_def)

lemma Load_BS2_loaded:
  assumes "ReadFileToString x path = Some data" and "0x1B0620 \<le> length data"
  shows "\<exists>s'. Load_BS2 x path s = Inr (True, s')
    \<and> config s' = config s \<and> volume s' = volume s
    \<and> ppcState s' = (bs2_registers (ppcState s))\<lparr>pc := 0x81200150\<rparr>
    \<and> mem s' = (\<lambda>a. if unat (a - 0x01300000) < 0x1AFE00
                     then take 0x1AFE00 (drop 0x820 (descramble_range x 0x100 0x1AFE00 data)) ! unat (a - 0x01300000)
                     else if unat (a - 0x01200000) < 0x700
                     then take 0x700 (drop 0x100 (descramble_range x 0x100 0x1AFE00 data)) ! unat (a - 0x01200000)
                     else mem s a)
    \<and> trace s' = trace s @
        (let h = crc32 x (crc32 x 0 []) (take (unat (word_of_nat (length data) :: u32)) data);
             r = documented_region h
         in if r = UNKNOWN_REGION then [PanicAlertT (IPL_with_unknown_hash h)]
            else if m_region (config s) \<noteq> r
            then [PanicAlertT (IPL_found_in_wrong_directory r (m_region (config s)))]
            else [])
        @ [Memory_CopyToEmu 0x01200000 (take 0x700 (drop 0x100 (descramble_range x 0x100 0x1AFE00 data))),
           Memory_CopyToEmu 0x01300000 (take 0x1AFE00 (drop 0x820 (descramble_range x 0x100 0x1AFE00 data))),
           PowerPC_DBATUpdated, PowerPC_IBATUpdated]"
proof -
  obtain r s1 where c: "classify_ipl (crc32 x (crc32 x 0 []) (take (unat (word_of_nat (length data) :: u32)) data)) s = (r, s1)"
    by (cases "classify_ipl (crc32 x (crc32 x 0 []) (take (unat (word_of_nat (length data) :: u32)) data)) s")
  have r: "r = documented_region (crc32 x (crc32 x 0 []) (take (unat (word_of_nat (length data) :: u32)) data))"
    using classify_ipl_region [of "crc32 x (crc32 x 0 []) (take (unat (word_of_nat (length data) :: u32)) data)" s] c by simp
  have s1: "s1 = (if r = UNKNOWN_REGION
      then notify (PanicAlertT (IPL_with_unknown_hash (crc32 x (crc32 x 0 []) (take (unat (word_of_nat (length data) :: u32)) data)))) s else s)"
    using classify_ipl_state [of "crc32 x (crc32 x 0 []) (take (unat (word_of_nat (length data) :: u32)) data)" s] c r by simp
  have len: "length (descramble_range x 0x100 0x1AFE00 data) = length data"
    using assms(2) by (simp add: length_descramble_range)
  have second_copy: "take 0x1AFE00 (drop 0x820 (descramble_range x 0x100 0x1AFE00 data @ [0]))
      = take 0x1AFE00 (drop 0x820 (descramble_range x 0x100 0x1AFE00 data))"
    using assms(2) len by simp
  show ?thesis
    using assms len
    by (auto simp add: Load_BS2_def Let_def c s1 r [symmetric] notify_def CopyToEmu_def
        fun_eq_iff second_copy simp del: drop_append take_append)
qed

text \<open>A readable file too short for the ranges: the call has no defined result.\<close>

lemma Load_BS2_overrun:
  assumes "ReadFileToString x path = Some data" and "length data < 0x1B061F"
  shows "Load_BS2 x path s = Inl BufferOverrun"
proof (cases "length data < 0x100 + 0x1AFE00")
  case True
  then show ?thesis
    using assms(1) by (simp add: Load_BS2_def Let_def split_beta)
next
  case False
  then have "length (descramble_range x 0x100 0x1AFE00 data) = length data"
    by (simp add: length_descramble_range)
  then show ?thesis
    using assms False by (simp add: Load_BS2_def Let_def split_beta)
qed

text \<open>A file of exactly \<open>0x1B061F\<close> bytes is in bounds: the last byte of the second copy
  is the terminator.\<close>

lemma Load_BS2_terminator:
  assumes "ReadFileToString x path = Some data" and "length data = 0x1B061F"
  shows "\<exists>s'. Load_BS2 x path s = Inr (True, s')"
proof -
  have "length (descramble_range x 0x100 0x1AFE00 data) = length data"
    using assms(2) by (simp add: length_descramble_range)
  then show ?thesis
    using assms by (simp add: Load_BS2_def Let_def split_beta)
qed


lemma descramble_range_before:
  "offset + len \<le> length data \<Longrightarrow> take offset (descramble_range x offset len data) = take offset data"
  by (simp add: descramble_range_def)

lemma descramble_range_after:
  "offset + len \<le> length data \<Longrightarrow>
     drop (offset + len) (descramble_range x offset len data) = drop (offset + len) data"
  by (simp add: descramble_range_def)

lemma descramble_range_inside:
  "offset + len \<le> length data \<Longrightarrow>
     take len (drop offset (descramble_range x offset len data))
       = map (Descrambler x (take len (drop offset data))) [0..<len]"
  by (simp add: descramble_range_def)

lemma descramble_range_nth_after:
  assumes "offset + len \<le> length data" and "offset + len \<le> i" and "i < length data"
  shows "descramble_range x offset len data ! i = data ! i"
proof -
  have "descramble_range x offset len data ! i
        = drop (offset + len) (descramble_range x offset len data) ! (i - (offset + len))"
    using assms by (simp add: length_descramble_range)
  also have "\<dots> = drop (offset + len) data ! (i - (offset + len))"
    using assms by (simp only: descramble_range_after)
  also have "\<dots> = data ! i"
    using assms by simp
  finally show ?thesis .
qed

lemma tail_of_second_copy:
  assumes "0x1B0620 \<le> length data"
  shows "drop 0x1AF6E0 (take 0x1AFE00 (drop 0x820 (descramble_range x 0x100 0x1AFE00 data)))
         = take 0x720 (drop 0x1AFF00 data)"
proof -
  have "drop 0x1AFF00 (descramble_range x 0x100 0x1AFE00 data) = drop 0x1AFF00 data"
    using descramble_range_after [of "0x100" "0x1AFE00" data x] assms by simp
  then show ?thesis
    by (simp add: drop_take)
qed

lemma unat_tail_address:
  assumes "i < 0x720"
  shows "unat ((0x01300000 + 0x1AF6E0 + word_of_nat i :: u32) - 0x01300000) = 0x1AF6E0 + i"
proof -
  have "unat (word_of_nat i :: u32) = i"
    using assms by (simp add: unat_of_nat take_bit_nat_eq_self)
  then have "unat (0x1AF6E0 + word_of_nat i :: u32) = 0x1AF6E0 + i"
    using assms by (simp add: unat_word_ariths)
  then show ?thesis by simp
qed

text \<open>C10. The descramble transform of \<open>Load_BS2\<close> covers exactly the bytes
  \<open>[0x100, 0x100 + 0x1AFE00)\<close> of the buffer: the bytes before and after are the file's,
  the bytes inside are the transform's. The second copy is taken from
  \<open>[0x820, 0x820 + 0x1AFE00)\<close>; its last \<open>0x720\<close> bytes lie beyond the descrambled range,
  and guest memory receives them as the raw bytes of the file.\<close>

theorem Load_BS2_descramble_coverage:
  assumes "ReadFileToString x path = Some data" and "0x1B0620 \<le> length data"
  shows "take 0x100 (descramble_range x 0x100 0x1AFE00 data) = take 0x100 data
    \<and> take 0x1AFE00 (drop 0x100 (descramble_range x 0x100 0x1AFE00 data))
        = map (Descrambler x (take 0x1AFE00 (drop 0x100 data))) [0..<0x1AFE00]
    \<and> drop (0x100 + 0x1AFE00) (descramble_range x 0x100 0x1AFE00 data)
        = drop (0x100 + 0x1AFE00) data
    \<and> drop (0x1AFE00 - 0x720) (take 0x1AFE00 (drop 0x820 (descramble_range x 0x100 0x1AFE00 data)))
        = take 0x720 (drop (0x100 + 0x1AFE00) data)
    \<and> (\<exists>s'. Load_BS2 x path s = Inr (True, s')
          \<and> Memory_CopyToEmu 0x01300000
               (take 0x1AFE00 (drop 0x820 (descramble_range x 0x100 0x1AFE00 data)))
             \<in> set (trace s')
          \<and> (\<forall>i<0x720. mem s' (0x01300000 + 0x1AF6E0 + word_of_nat i)
                          = data ! (0x100 + 0x1AFE00 + i)))"
proof -
  let ?d = "descramble_range x 0x100 0x1AFE00 data"
  have range: "0x100 + 0x1AFE00 \<le> length data"
    using assms(2) by simp
  have before: "take 0x100 ?d = take 0x100 data"
    using range by (rule descramble_range_before)
  have inside: "take 0x1AFE00 (drop 0x100 ?d)
        = map (Descrambler x (take 0x1AFE00 (drop 0x100 data))) [0..<0x1AFE00]"
    using range by (rule descramble_range_inside)
  have after: "drop (0x100 + 0x1AFE00) ?d = drop (0x100 + 0x1AFE00) data"
    using range by (rule descramble_range_after)
  have tail: "drop (0x1AFE00 - 0x720) (take 0x1AFE00 (drop 0x820 ?d))
        = take 0x720 (drop (0x100 + 0x1AFE00) data)"
    using tail_of_second_copy [OF assms(2), of x] by simp
  obtain s' where run: "Load_BS2 x path s = Inr (True, s')"
    and m: "mem s' = (\<lambda>a. if unat (a - 0x01300000) < 0x1AFE00
                     then take 0x1AFE00 (drop 0x820 ?d) ! unat (a - 0x01300000)
                     else if unat (a - 0x01200000) < 0x700
                     then take 0x700 (drop 0x100 ?d) ! unat (a - 0x01200000)
                     else mem s a)"
    and tr: "Memory_CopyToEmu 0x01300000 (take 0x1AFE00 (drop 0x820 ?d)) \<in> set (trace s')"
    using Load_BS2_loaded [OF assms, of s] by auto
  have raw: "mem s' (0x01300000 + 0x1AF6E0 + word_of_nat i) = data ! (0x100 + 0x1AFE00 + i)"
    if "i < 0x720" for i
  proof -
    have "mem s' (0x01300000 + 0x1AF6E0 + word_of_nat i)
          = take 0x1AFE00 (drop 0x820 ?d) ! (0x1AF6E0 + i)"
      using that by (simp only: m unat_tail_address) simp
    also have "\<dots> = ?d ! (0x1AFF00 + i)"
      using that assms(2) by (simp add: length_descramble_range add.commute)
    also have "\<dots> = data ! (0x1AFF00 + i)"
      using that assms(2) by (intro descramble_range_nth_after) simp_all
    finally show ?thesis by simp
  qed
  show ?thesis
    using before inside after tail run tr raw by blast
qed


lemma sample_ipl_read: "ReadFileToString sample_ext ''ipl.bin'' = Some sample_ipl"
  by (simp add: sample_ext_def)

lemma sample_ipl_missing: "ReadFileToString sample_ext ''missing.bin'' = None"
  by (simp add: sample_ext_def)

lemma sample_ipl_length: "0x1B0620 \<le> length sample_ipl"
  by (simp add: sample_ipl_def)

theorem Load_BS2_unreadable_witness:
  "Load_BS2 sample_ext ''missing.bin'' (sample_emu (sample_config BOOT_BS2 ''ipl.bin'') 7)
     = Inr (False, sample_emu (sample_config BOOT_BS2 ''ipl.bin'') 7)"
  using Load_BS2_unreadable [of sample_ext "''missing.bin''"] sample_ipl_missing by simp

text \<open>The checksum classification of \<open>Load_BS2\<close> is the documented table of nine
  entries: each of the nine checksums is classified to its region (none of them the unknown
  one) without an alert, and every checksum outside the table is classified to the unknown
  region with the alert that reports it. For a file that was read and holds the ranges
  the function installs, \<open>Load_BS2\<close> returns true whatever the checksum; the alerts it
  raises are exactly those of the classification: the unknown-hash alert for a checksum
  outside the table, the wrong-directory alert for a known region that differs from the
  configured one, none otherwise.\<close>

theorem Load_BS2_checksum_table:
  assumes "ReadFileToString x path = Some data" and "0x1B0620 \<le> length data"
  shows "length documented_checksums = 9 \<and> distinct (map fst documented_checksums)
    \<and> (\<forall>(c, r) \<in> set documented_checksums. r \<noteq> UNKNOWN_REGION \<and> classify_ipl c s = (r, s))
    \<and> (k \<notin> fst ` set documented_checksums \<longrightarrow>
          classify_ipl k s = (UNKNOWN_REGION, notify (PanicAlertT (IPL_with_unknown_hash k)) s))
    \<and> (\<exists>s' rest. Load_BS2 x path s = Inr (True, s')
          \<and> (\<forall>a. PanicAlertT a \<notin> set rest)
          \<and> trace s' = trace s @
              (let h = crc32 x (crc32 x 0 []) (take (unat (word_of_nat (length data) :: u32)) data);
                   r = documented_region h
               in if r = UNKNOWN_REGION then [PanicAlertT (IPL_with_unknown_hash h)]
                  else if m_region (config s) \<noteq> r
                  then [PanicAlertT (IPL_found_in_wrong_directory r (m_region (config s)))]
                  else [])
              @ rest)"
proof -
  have table: "length documented_checksums = 9 \<and> distinct (map fst documented_checksums)"
    by (simp add: documented_checksums_def)
  have known: "\<forall>(c, r) \<in> set documented_checksums. r \<noteq> UNKNOWN_REGION \<and> classify_ipl c s = (r, s)"
    by (simp add: documented_checksums_def classify_ipl_def
        USA_v1_0_def USA_v1_1_def USA_v1_2_def BRA_v1_0_def JAP_v1_0_def JAP_v1_1_def
        PAL_v1_0_def PAL_v1_1_def PAL_v1_2_def)
  have unknown: "k \<notin> fst ` set documented_checksums \<longrightarrow>
          classify_ipl k s = (UNKNOWN_REGION, notify (PanicAlertT (IPL_with_unknown_hash k)) s)"
    by (simp add: documented_checksums_def classify_ipl_def
        USA_v1_0_def USA_v1_1_def USA_v1_2_def BRA_v1_0_def JAP_v1_0_def JAP_v1_1_def
        PAL_v1_0_def PAL_v1_1_def PAL_v1_2_def)
  let ?rest = "[Memory_CopyToEmu 0x01200000 (take 0x700 (drop 0x100 (descramble_range x 0x100 0x1AFE00 data))),
           Memory_CopyToEmu 0x01300000 (take 0x1AFE00 (drop 0x820 (descramble_range x 0x100 0x1AFE00 data))),
           PowerPC_DBATUpdated, PowerPC_IBATUpdated]"
  have quiet: "\<forall>a. PanicAlertT a \<notin> set ?rest"
    by simp
  obtain s' where run: "Load_BS2 x path s = Inr (True, s')"
    and tr: "trace s' = trace s @
              (let h = crc32 x (crc32 x 0 []) (take (unat (word_of_nat (length data) :: u32)) data);
                   r = documented_region h
               in if r = UNKNOWN_REGION then [PanicAlertT (IPL_with_unknown_hash h)]
                  else if m_region (config s) \<noteq> r
                  then [PanicAlertT (IPL_found_in_wrong_directory r (m_region (config s)))]
                  else [])
              @ ?rest"
    using Load_BS2_loaded [OF assms, of s] by blast
  from run tr quiet have "\<exists>s' rest. Load_BS2 x path s = Inr (True, s')
          \<and> (\<forall>a. PanicAlertT a \<notin> set rest)
          \<and> trace s' = trace s @
              (let h = crc32 x (crc32 x 0 []) (take (unat (word_of_nat (length data) :: u32)) data);
                   r = documented_region h
               in if r = UNKNOWN_REGION then [PanicAlertT (IPL_with_unknown_hash h)]
                  else if m_region (config s) \<noteq> r
                  then [PanicAlertT (IPL_found_in_wrong_directory r (m_region (config s)))]
                  else [])
              @ rest"
    by blast
  with table known unknown show ?thesis by blast
qed



theorem Load_BS2_checksum_table_witness:
  "classify_ipl 0x4F319F43 (sample_emu (sample_config BOOT_BS2 ''ipl.bin'') 0)
     = (PAL, sample_emu (sample_config BOOT_BS2 ''ipl.bin'') 0)
   \<and> classify_ipl 0x12345678 (sample_emu (sample_config BOOT_BS2 ''ipl.bin'') 0)
     = (UNKNOWN_REGION,
        notify (PanicAlertT (IPL_with_unknown_hash 0x12345678))
          (sample_emu (sample_config BOOT_BS2 ''ipl.bin'') 0))
   \<and> returned (Load_BS2 sample_ext ''ipl.bin'' (sample_emu (sample_config BOOT_BS2 ''ipl.bin'') 0))
     = Some True"
  using Load_BS2_checksum_table [OF sample_ipl_read sample_ipl_length,
      of "sample_emu (sample_config BOOT_BS2 ''ipl.bin'') 0" "0x12345678"]
  by (auto simp add: documented_checksums_def returned_def)

text \<open>C2. The table is as documented, but \<open>Load_BS2\<close> does not return true for every
  file that was read. It never looks at the size of the buffer: for a readable file of
  16 bytes the descrambler is run over \<open>0x1AFE00\<close> bytes from offset \<open>0x100\<close>, all of
  them outside the buffer, and the call has no defined result.\<close>

theorem Load_BS2_short_file_overrun:
  "ReadFileToString (sample_ext\<lparr>ReadFileToString := (\<lambda>p. Some (replicate 16 0))\<rparr>) ''ipl.bin''
     = Some (replicate 16 0)
   \<and> Load_BS2 (sample_ext\<lparr>ReadFileToString := (\<lambda>p. Some (replicate 16 0))\<rparr>) ''ipl.bin''
       (sample_emu (sample_config BOOT_BS2 ''ipl.bin'') 0)
     = Inl BufferOverrun"
  by (simp add: Load_BS2_def Let_def split_beta)



theorem Load_BS2_descramble_coverage_witness:
  "returned (Load_BS2 sample_ext ''ipl.bin'' (sample_emu (sample_config BOOT_BS2 ''ipl.bin'') 0))
     = Some True
   \<and> mem (state_after
        (Load_BS2 sample_ext ''ipl.bin'' (sample_emu (sample_config BOOT_BS2 ''ipl.bin'') 0))
        (sample_emu (sample_config BOOT_BS2 ''ipl.bin'') 0)) (0x01300000 + 0x1AF6E0)
     = sample_ipl ! 0x1AFF00"
proof -
  let ?s = "sample_emu (sample_config BOOT_BS2 ''ipl.bin'') 0"
  obtain s' where run: "Load_BS2 sample_ext ''ipl.bin'' ?s = Inr (True, s')"
    and raw: "\<forall>i<0x720. mem s' (0x01300000 + 0x1AF6E0 + word_of_nat i)
                          = sample_ipl ! (0x100 + 0x1AFE00 + i)"
    using Load_BS2_descramble_coverage [OF sample_ipl_read sample_ipl_length, of ?s]
    by blast
  from spec [OF raw, of 0]
  have "mem s' (0x01300000 + 0x1AF6E0) = sample_ipl ! 0x1AFF00"
    by simp
  then show ?thesis
    by (simp add: run returned_def state_after_def)
qed

section \<open>Properties of Load_FST\<close>

text \<open>\<open>AlignDown\<close> to 32 is the greatest multiple of 32 not above its argument.\<close>

lemma AlignDown_unat: "unat (AlignDown v 0x20) = unat v - unat v mod 32"
proof -
  have "unat (v mod 0x20) = unat v mod 32"
    by (simp add: unat_mod)
  moreover have "v mod 0x20 \<le> v"
    by (simp add: word_le_nat_alt unat_mod)
  ultimately show ?thesis
    by (simp add: AlignDown_def unat_sub)
qed

lemma AlignDown_aligned: "AlignDown v 0x20 mod 0x20 = 0"
proof -
  have "(unat v - unat v mod 32) mod 32 = 0"
    by (simp add: minus_mod_eq_div_mult)
  then have "unat (AlignDown v 0x20 mod 0x20) = 0"
    by (simp only: unat_mod AlignDown_unat) simp
  then show ?thesis
    by (simp only: unat_eq_0)
qed


lemma AlignDown_le: "AlignDown v 0x20 \<le> v"
  by (simp add: word_le_nat_alt AlignDown_unat)

lemma AlignDown_greatest:
  assumes "w \<le> v" and "w mod 0x20 = 0"
  shows "w \<le> AlignDown v 0x20"
proof -
  have "unat (w mod 0x20) = 0"
    using assms(2) by simp
  then have "unat w mod 32 = 0"
    by (simp add: unat_mod)
  then have "unat w = unat w div 32 * 32"
    by (simp add: mod_eq_0_iff_dvd)
  moreover have "unat w div 32 \<le> unat v div 32"
    using assms(1) by (simp add: word_le_nat_alt div_le_mono)
  ultimately have "unat w \<le> unat v div 32 * 32"
    by (metis mult_le_mono1)
  then show ?thesis
    by (simp add: word_le_nat_alt AlignDown_unat minus_mod_eq_div_mult)
qed

lemma arena_high_of_in_range:
  assumes "push_bit shift max_fst_size \<le> (0x817FFFFF :: u32)"
  shows "arena_high_of shift max_fst_size \<le> 0x817FFFFF"
proof -
  have "0x817FFFFF - push_bit shift max_fst_size \<le> (0x817FFFFF :: u32)"
    using assms by (rule word_sub_le)
  with AlignDown_le [of "0x817FFFFF - push_bit shift max_fst_size"]
  show ?thesis
    unfolding arena_high_of_def by (rule order_trans)
qed

text \<open>Beyond the ceiling the 32-bit subtraction wraps, and the boundary lies above the
  ceiling: the bound on the scaled size is exactly what the ceiling needs.\<close>

lemma arena_high_of_wraps:
  assumes "(0x817FFFFF :: u32) < push_bit shift max_fst_size"
  shows "0x817FFFFF < arena_high_of shift max_fst_size"
proof -
  let ?m = "push_bit shift max_fst_size :: u32"
  have "unat (0x817FFFFF :: u32) < unat ?m"
    using assms by (simp only: word_less_nat_alt)
  moreover have "unat ?m < 2 ^ 32"
    using unsigned_less [of ?m] by simp
  ultimately have "unat (0x817FFFFF - ?m) \<ge> 0x81800000"
    by (simp add: unat_sub_if_size word_size)
  then have "(0x81800000 :: u32) \<le> 0x817FFFFF - ?m"
    by (simp add: word_le_nat_alt)
  moreover have "(0x81800000 :: u32) mod 0x20 = 0"
    by simp
  ultimately have "(0x81800000 :: u32) \<le> arena_high_of shift max_fst_size"
    unfolding arena_high_of_def by (rule AlignDown_greatest)
  then show ?thesis
    by (simp add: word_le_nat_alt word_less_nat_alt)
qed


lemma be_roundtrip:
  "push_bit 24 (ucast (ucast (drop_bit 24 v) :: u8)) OR push_bit 16 (ucast (ucast (drop_bit 16 v) :: u8))
     OR push_bit 8 (ucast (ucast (drop_bit 8 v) :: u8)) OR ucast (ucast v :: u8) = (v :: u32)"
proof (rule bit_word_eqI)
  fix n :: nat
  assume "n < LENGTH(32)"
  then have n: "n < 32" by simp
  consider "n < 8" | "8 \<le> n" "n < 16" | "16 \<le> n" "n < 24" | "24 \<le> n" "n < 32"
    using n by linarith
  then show "bit (push_bit 24 (ucast (ucast (drop_bit 24 v) :: u8))
        OR push_bit 16 (ucast (ucast (drop_bit 16 v) :: u8))
        OR push_bit 8 (ucast (ucast (drop_bit 8 v) :: u8)) OR ucast (ucast v :: u8) :: u32) n
      = bit v n"
    by cases (auto simp add: bit_simps)
qed

lemma Read_U32_Write_U32_same: "Read_U32 a (Write_U32 v a s) = v"
  by (simp add: Read_U32_def Write_U32_def be_roundtrip)

lemma Read_U32_Write_U32_next: "Read_U32 0x38 (Write_U32 v 0x3c s) = Read_U32 0x38 s"
  by (simp add: Read_U32_def Write_U32_def)

lemma ReadSwapped_value:
  "fst (ReadSwapped vol offset buffer decrypt s)
     = (case Read vol offset 4 decrypt of None \<Rightarrow> buffer | Some bytes \<Rightarrow> be32 bytes)"
  by (simp add: ReadSwapped_def Let_def split: option.splits)

lemma Load_FST_slot_38:
  assumes "volume s = Some vol"
  shows "Read_U32 0x38 (Load_FST is_wii s)
     = arena_high_of (if is_wii then 2 else 0)
         (case Read vol 0x042c 4 is_wii of None \<Rightarrow> 0 | Some bytes \<Rightarrow> be32 bytes)"
  using assms
  by (simp add: Load_FST_def Let_def split_beta Read_U32_Write_U32_next
      Read_U32_Write_U32_same ReadSwapped_value)

text \<open>C5. For every maximum FST size read from the header that is valid, that is, whose
  scaled value (shifted left by 2 in secondary-console mode, unshifted in primary mode,
  on 32 bits) does not exceed the ceiling \<open>0x817FFFFF\<close>, the arena boundary \<open>Load_FST\<close>
  computes and stores in the low-memory slot \<open>0x38\<close> is a multiple of 32 and at most the
  ceiling. All values are 32-bit unsigned words.\<close>

theorem Load_FST_arena_high:
  assumes "volume s = Some vol"
    and "max_fst_size = (case Read vol 0x042c 4 is_wii of None \<Rightarrow> 0 | Some bytes \<Rightarrow> be32 bytes)"
    and "shift = (if is_wii then 2 else 0)"
    and "push_bit shift max_fst_size \<le> (0x817FFFFF :: u32)"
  shows "Read_U32 0x38 (Load_FST is_wii s) = arena_high_of shift max_fst_size
    \<and> arena_high_of shift max_fst_size mod 0x20 = 0
    \<and> arena_high_of shift max_fst_size \<le> 0x817FFFFF"
proof -
  have "Read_U32 0x38 (Load_FST is_wii s) = arena_high_of shift max_fst_size"
    using Load_FST_slot_38 [OF assms(1), of is_wii] assms(2,3) by simp
  moreover have "arena_high_of shift max_fst_size mod 0x20 = 0"
    unfolding arena_high_of_def by (rule AlignDown_aligned)
  moreover have "arena_high_of shift max_fst_size \<le> 0x817FFFFF"
    using assms(4) by (rule arena_high_of_in_range)
  ultimately show ?thesis by blast
qed

text \<open>C6. \<open>Load_FST\<close> with no disc inside does nothing: the emulator state, guest memory
  and the trace of service calls included, is the state it was given (no memory write, no
  disc read).\<close>

theorem Load_FST_no_disc:
  assumes "\<not> IsDiscInside s"
  shows "Load_FST is_wii s = s"
  using assms by (simp add: IsDiscInside_def Load_FST_def)

theorem Load_FST_no_disc_witness:
  "\<not> IsDiscInside (sample_emu (sample_config BOOT_ELF ''C:/games/Foo.elf'') 0)
   \<and> Load_FST True (sample_emu (sample_config BOOT_ELF ''C:/games/Foo.elf'') 0)
     = sample_emu (sample_config BOOT_ELF ''C:/games/Foo.elf'') 0"
proof -
  have "\<not> IsDiscInside (sample_emu (sample_config BOOT_ELF ''C:/games/Foo.elf'') 0)"
    by (simp add: IsDiscInside_def sample_emu_def)
  then show ?thesis
    using Load_FST_no_disc [of "sample_emu (sample_config BOOT_ELF ''C:/games/Foo.elf'') 0" True]
    by simp
qed


lemma sample_volume_max_fst_size:
  "(case Read sample_volume 0x042c 4 False of None \<Rightarrow> 0 | Some bytes \<Rightarrow> be32 bytes) = 0"
  by (simp add: sample_volume_def be32_def nth_append)

theorem Load_FST_arena_high_witness:
  "Read_U32 0x38
     (Load_FST False ((sample_emu (sample_config BOOT_ELF ''C:/games/Foo.elf'') 0)
        \<lparr>volume := Some sample_volume\<rparr>)) = arena_high_of 0 0
   \<and> arena_high_of 0 0 mod 0x20 = 0
   \<and> arena_high_of 0 0 \<le> 0x817FFFFF"
proof -
  let ?s = "(sample_emu (sample_config BOOT_ELF ''C:/games/Foo.elf'') 0)
        \<lparr>volume := Some sample_volume\<rparr>"
  have v: "volume ?s = Some sample_volume"
    by simp
  have m: "(0 :: u32) = (case Read sample_volume 0x042c 4 False of None \<Rightarrow> 0
      | Some bytes \<Rightarrow> be32 bytes)"
    by (simp only: sample_volume_max_fst_size)
  have sh: "(0 :: nat) = (if False then 2 else 0)"
    by simp
  have ok: "push_bit (0 :: nat) (0 :: u32) \<le> 0x817FFFFF"
    by simp
  show ?thesis
    using Load_FST_arena_high [OF v m sh ok] .
qed

section \<open>Properties of FindMapFile\<close>

lemma find_last_from_succ:
  "find_last_from str c i found + 1
     = (if c \<in> set str
        then word_of_nat (i + length str - length (takeWhile (\<lambda>x. x \<noteq> c) (rev str)))
        else found + 1)"
proof (induction str arbitrary: i found)
  case Nil
  then show ?case by simp
next
  case (Cons ch rest)
  show ?case
  proof (cases "c \<in> set rest")
    case True
    then have "takeWhile (\<lambda>x. x \<noteq> c) (rev rest @ [ch]) = takeWhile (\<lambda>x. x \<noteq> c) (rev rest)"
      by (intro takeWhile_append1 [of c]) simp_all
    with True show ?thesis
      by (simp add: Cons.IH)
  next
    case False
    then have tw: "takeWhile (\<lambda>x. x \<noteq> c) (rev rest @ [ch])
        = rev rest @ takeWhile (\<lambda>x. x \<noteq> c) [ch]"
      by (intro takeWhile_append2) auto
    show ?thesis
    proof (cases "ch = c")
      case True
      with False tw have "length (takeWhile (\<lambda>x. x \<noteq> c) (rev (ch # rest))) = length rest"
        by simp
      with True False show ?thesis
        by (simp add: Cons.IH del: takeWhile_append2 takeWhile.simps)
    next
      case neq: False
      with False show ?thesis
        by (simp add: Cons.IH)
    qed
  qed
qed

lemma find_last_of_succ:
  "find_last_of str c + 1
     = word_of_nat (length str - length (takeWhile (\<lambda>x. x \<noteq> c) (rev str)))"
proof (cases "c \<in> set str")
  case True
  then show ?thesis
    by (simp add: find_last_of_def find_last_from_succ)
next
  case False
  then have "takeWhile (\<lambda>x. x \<noteq> c) (rev str) = rev str"
    by (intro takeWhile_eq_all_conv [THEN iffD2]) auto
  then have "length str - length (takeWhile (\<lambda>x. x \<noteq> c) (rev str)) = 0"
    by (simp only: length_rev diff_self_eq_0)
  moreover have "find_last_of str c + 1 = 0"
    using False by (simp add: find_last_of_def find_last_from_succ npos_def)
  ultimately show ?thesis
    by simp
qed

lemma length_takeWhile_conj:
  "length (takeWhile (\<lambda>x. P x \<and> Q x) xs)
     = min (length (takeWhile P xs)) (length (takeWhile Q xs))"
  by (induction xs) auto

lemma length_file_name_of:
  "length (file_name_of path)
     = min (length (takeWhile (\<lambda>x. x \<noteq> CHR ''/'') (rev path)))
           (length (takeWhile (\<lambda>x. x \<noteq> CHR 0x5C) (rev path)))"
  by (simp add: file_name_of_def is_separator_def length_takeWhile_conj)

lemma file_name_of_drop:
  "drop (length path - length (file_name_of path)) path = file_name_of path"
proof -
  define tw where "tw = takeWhile (\<lambda>c. \<not> is_separator c) (rev path)"
  define dw where "dw = dropWhile (\<lambda>c. \<not> is_separator c) (rev path)"
  have "rev path = tw @ dw"
    by (simp add: tw_def dw_def)
  then have "rev (rev path) = rev (tw @ dw)"
    by (rule arg_cong)
  then have p: "path = rev dw @ rev tw"
    by simp
  have f: "file_name_of path = rev tw"
    by (simp add: file_name_of_def tw_def)
  have "length path = length (rev dw) + length (rev tw)"
    using arg_cong [OF p, of length] by simp
  then have "length path - length (rev tw) = length (rev dw)"
    by simp
  then have "drop (length path - length (rev tw)) path = drop (length (rev dw)) (rev dw @ rev tw)"
    using p by simp
  then show ?thesis
    by (simp add: f)
qed


lemma unat_word_of_nat_u64:
  "n < 2 ^ 64 \<Longrightarrow> unat (word_of_nat n :: u64) = n"
  by (simp add: unat_of_nat)

lemma name_begin_index_eq:
  assumes "length path < 2 ^ 64"
  shows "(if find_last_of path (CHR 0x5C) + 1 > find_last_of path (CHR ''/'') + 1
          then find_last_of path (CHR 0x5C) + 1 else find_last_of path (CHR ''/'') + 1)
         = word_of_nat (length path - length (file_name_of path))"
proof -
  define pa where "pa = length path - length (takeWhile (\<lambda>x. x \<noteq> CHR ''/'') (rev path))"
  define pb where "pb = length path - length (takeWhile (\<lambda>x. x \<noteq> CHR 0x5C) (rev path))"
  have fa: "find_last_of path (CHR ''/'') + 1 = word_of_nat pa"
    by (simp only: find_last_of_succ pa_def)
  have fb: "find_last_of path (CHR 0x5C) + 1 = word_of_nat pb"
    by (simp only: find_last_of_succ pb_def)
  have ua: "unat (word_of_nat pa :: u64) = pa"
    using assms by (intro unat_word_of_nat_u64) (simp add: pa_def)
  have ub: "unat (word_of_nat pb :: u64) = pb"
    using assms by (intro unat_word_of_nat_u64) (simp add: pb_def)
  have n: "length path - length (file_name_of path) = max pa pb"
    unfolding length_file_name_of pa_def pb_def by linarith
  show ?thesis
    unfolding fa fb n by (simp add: word_less_nat_alt ua ub max_def)
qed

text \<open>The title of an executable: a file name shorter than four characters is kept
  whole, since the count handed to \<open>substr\<close> wraps around.\<close>

lemma dol_elf_title_eq:
  assumes "length path < 2 ^ 64"
  shows "dol_elf_title path
     = Inr (if 4 \<le> length (file_name_of path) then without_extension (file_name_of path)
            else file_name_of path)"
proof -
  define name where "name = file_name_of path"
  define nb where "nb = length path - length name"
  have nb_le: "nb \<le> length path"
    by (simp add: nb_def)
  have name_le: "length name \<le> length path"
    unfolding name_def file_name_of_def using length_takeWhile_le [of _ "rev path"] by simp
  have idx: "(if find_last_of path (CHR 0x5C) + 1 > find_last_of path (CHR ''/'') + 1
          then find_last_of path (CHR 0x5C) + 1 else find_last_of path (CHR ''/'') + 1)
         = (word_of_nat nb :: u64)"
    using name_begin_index_eq [OF assms] by (simp only: nb_def name_def)
  have unb: "unat (word_of_nat nb :: u64) = nb"
    using assms nb_le by (intro unat_word_of_nat_u64) simp
  have dr: "drop nb path = name"
    unfolding nb_def name_def by (rule file_name_of_drop)
  have "word_of_nat (length path) = (word_of_nat nb :: u64) + word_of_nat (length name)"
    using name_le by (simp add: nb_def flip: of_nat_add)
  then have cnt: "word_of_nat (length path) - 4 - (word_of_nat nb :: u64) = word_of_nat (length name) - 4"
    by simp
  have take_eq: "take (unat (word_of_nat (length name) - 4 :: u64)) name
      = (if 4 \<le> length name then without_extension name else name)"
  proof (cases "4 \<le> length name")
    case True
    then have "(word_of_nat (length name) - 4 :: u64) = word_of_nat (length name - 4)"
      by (simp add: of_nat_diff)
    moreover have "unat (word_of_nat (length name - 4) :: u64) = length name - 4"
      using assms name_le by (intro unat_word_of_nat_u64) simp
    ultimately show ?thesis
      using True by (simp add: without_extension_def)
  next
    case False
    have small: "unat (word_of_nat (length name) :: u64) = length name"
      using assms name_le by (intro unat_word_of_nat_u64) simp
    have "unat (4 :: u64) = 4" by simp
    with small False
    have "unat (word_of_nat (length name) - 4 :: u64) = length name + 2 ^ 64 - 4"
      by (simp add: unat_sub_if_size word_size)
    then have "length name \<le> unat (word_of_nat (length name) - 4 :: u64)"
      by simp
    with False show ?thesis by simp
  qed
  show ?thesis
    unfolding dol_elf_title_def Let_def idx cnt substr_def
    using nb_le by (simp add: unb dr take_eq flip: name_def)
qed


lemma nibble_unat:
  "unat (drop_bit (4 * k) v AND 0xF) = unat v div 16 ^ k mod 16" for v :: u32
proof -
  have "(0xF :: u32) = mask 4"
    by (simp add: mask_eq_exp_minus_1)
  then have "drop_bit (4 * k) v AND 0xF = take_bit 4 (drop_bit (4 * k) v)"
    by (simp only: take_bit_eq_mask)
  moreover have "take_bit LENGTH(32) (unat v) = unat v"
    using unsigned_less [of v, where 'a = nat] by (simp only: take_bit_nat_eq_self_iff)
  ultimately have "unat (drop_bit (4 * k) v AND 0xF) = take_bit 4 (drop_bit (4 * k) (unat v))"
    by (simp only: unsigned_take_bit_eq unsigned_drop_bit_eq)
  also have "\<dots> = unat v div 2 ^ (4 * k) mod 2 ^ 4"
    by (simp only: take_bit_eq_mod drop_bit_eq_div)
  also have "\<dots> = unat v div 16 ^ k mod 16"
    by (simp add: power_mult)
  finally show ?thesis .
qed

lemma format_08X_hex_group: "format_08X v = hex_group (unat v)"
  by (simp add: format_08X_def hex_group_def hex_digit_def nibble_unat)

lemma title_id_halves:
  "unat ((ucast (drop_bit 32 TitleID) :: u32) AND 0xFFFFFFFF) = unat TitleID div 2 ^ 32"
  "unat ((ucast TitleID :: u32) AND 0xFFFFFFFF) = unat TitleID mod 2 ^ 32"
  for TitleID :: u64
proof -
  have m: "w AND 0xFFFFFFFF = w" for w :: u32
  proof -
    have "(0xFFFFFFFF :: u32) = - 1" by simp
    then show ?thesis by (simp only: and.right_neutral)
  qed
  have u: "unat (ucast w :: u32) = unat w mod 2 ^ 32" for w :: u64
    by (simp add: unsigned_ucast_eq take_bit_eq_mod)
  have "unat (drop_bit 32 TitleID) = unat TitleID div 2 ^ 32"
    by (simp add: drop_bit_eq_div unat_div)
  moreover have "unat TitleID div 2 ^ 32 < 2 ^ 32"
    using unsigned_less [of TitleID, where 'a = nat] by (simp add: less_mult_imp_div_less)
  ultimately show "unat ((ucast (drop_bit 32 TitleID) :: u32) AND 0xFFFFFFFF) = unat TitleID div 2 ^ 32"
    by (simp only: m u mod_less)
  show "unat ((ucast TitleID :: u32) AND 0xFFFFFFFF) = unat TitleID mod 2 ^ 32"
    by (simp only: m u)
qed


lemma FindMapFile_title:
  "title_id_str x (config s) = Inr title \<Longrightarrow>
     \<exists>existing writable. FindMapFile x s = Inr (existing, writable, title)"
  by (simp add: FindMapFile_def)

lemma title_id_str_executable:
  assumes "m_BootType para = BOOT_DOL \<or> m_BootType para = BOOT_ELF"
    and "length (m_strFilename para) < 2 ^ 64"
    and "4 \<le> length (file_name_of (m_strFilename para))"
  shows "title_id_str x para = Inr (without_extension (file_name_of (m_strFilename para)))"
  using assms by (auto simp add: title_id_str_def dol_elf_title_eq)

lemma title_id_str_installed:
  assumes "m_BootType para = BOOT_WII_NAND"
    and "GetNANDLoader x (m_strFilename para) = Some TitleID"
  shows "title_id_str x para
     = Inr (hex_group (unat TitleID div 2 ^ 32) @ ''_'' @ hex_group (unat TitleID mod 2 ^ 32))"
  using assms
  by (simp only: title_id_str_def EBootType.simps option.simps format_08X_hex_group
      title_id_halves(1)) (simp only: title_id_halves(2))

lemma sample_file_name: "file_name_of ''C:/games/Foo.dol'' = ''Foo.dol''"
  by (simp add: file_name_of_def is_separator_def)

lemma sample_title_groups:
  "hex_group (unat (0x0001000248414241 :: u64) div 2 ^ 32) = ''00010002''"
  "hex_group (unat (0x0001000248414241 :: u64) mod 2 ^ 32) = ''48414241''"
  by (simp_all add: hex_group_def)

text \<open>C7. The title id \<open>FindMapFile\<close> derives follows the documented rules. For an
  executable (DOL or ELF) whose file name carries the assumed four-character extension
  it is the file name, that is what follows the last separator of either convention,
  without its last four characters: \<open>C:/games/Foo.dol\<close> has the file name \<open>Foo.dol\<close> and
  the title id \<open>Foo\<close>. For an installed title whose loader is valid it is the two halves
  of the 64-bit title id, each as eight upper-case hexadecimal digits, joined by an
  underscore: \<open>0x0001000248414241\<close> gives \<open>00010002_48414241\<close>. Paths are strings of
  fewer than \<open>2 ^ 64\<close> characters, as every \<open>std::string\<close> is.\<close>

theorem FindMapFile_title_id:
  "((m_BootType (config s) = BOOT_DOL \<or> m_BootType (config s) = BOOT_ELF)
      \<and> length (m_strFilename (config s)) < 2 ^ 64
      \<and> 4 \<le> length (file_name_of (m_strFilename (config s)))
    \<longrightarrow> (\<exists>existing writable. FindMapFile x s
          = Inr (existing, writable, without_extension (file_name_of (m_strFilename (config s))))))
   \<and> (m_BootType (config s) = BOOT_WII_NAND
      \<and> GetNANDLoader x (m_strFilename (config s)) = Some TitleID
    \<longrightarrow> (\<exists>existing writable. FindMapFile x s
          = Inr (existing, writable,
                 hex_group (unat TitleID div 2 ^ 32) @ ''_'' @ hex_group (unat TitleID mod 2 ^ 32))))
   \<and> file_name_of ''C:/games/Foo.dol'' = ''Foo.dol''
   \<and> without_extension ''Foo.dol'' = ''Foo''
   \<and> hex_group (unat (0x0001000248414241 :: u64) div 2 ^ 32) @ ''_''
        @ hex_group (unat (0x0001000248414241 :: u64) mod 2 ^ 32) = ''00010002_48414241''"
proof -
  have exe: "(m_BootType (config s) = BOOT_DOL \<or> m_BootType (config s) = BOOT_ELF)
      \<and> length (m_strFilename (config s)) < 2 ^ 64
      \<and> 4 \<le> length (file_name_of (m_strFilename (config s)))
    \<longrightarrow> (\<exists>existing writable. FindMapFile x s
          = Inr (existing, writable, without_extension (file_name_of (m_strFilename (config s)))))"
    using FindMapFile_title [OF title_id_str_executable] by blast
  have inst: "m_BootType (config s) = BOOT_WII_NAND
      \<and> GetNANDLoader x (m_strFilename (config s)) = Some TitleID
    \<longrightarrow> (\<exists>existing writable. FindMapFile x s
          = Inr (existing, writable,
                 hex_group (unat TitleID div 2 ^ 32) @ ''_'' @ hex_group (unat TitleID mod 2 ^ 32)))"
    using FindMapFile_title [OF title_id_str_installed] by blast
  have ext: "without_extension ''Foo.dol'' = ''Foo''"
    by (simp add: without_extension_def)
  have grp: "hex_group (unat (0x0001000248414241 :: u64) div 2 ^ 32) @ ''_''
        @ hex_group (unat (0x0001000248414241 :: u64) mod 2 ^ 32) = ''00010002_48414241''"
    by (simp only: sample_title_groups) simp
  from exe inst sample_file_name ext grp show ?thesis
    by (intro conjI)
qed

theorem FindMapFile_title_id_witness:
  "(\<exists>existing writable.
      FindMapFile sample_ext (sample_emu (sample_config BOOT_DOL ''C:/games/Foo.dol'') 0)
        = Inr (existing, writable, ''Foo''))
   \<and> (\<exists>existing writable.
      FindMapFile sample_ext (sample_emu (sample_config BOOT_WII_NAND ''title.wad'') 0)
        = Inr (existing, writable, ''00010002_48414241''))"
proof -
  let ?d = "sample_emu (sample_config BOOT_DOL ''C:/games/Foo.dol'') 0"
  let ?n = "sample_emu (sample_config BOOT_WII_NAND ''title.wad'') 0"
  have name: "m_strFilename (config ?d) = ''C:/games/Foo.dol''"
    by (simp add: sample_emu_def sample_config_def)
  have "(m_BootType (config ?d) = BOOT_DOL \<or> m_BootType (config ?d) = BOOT_ELF)
      \<and> length (m_strFilename (config ?d)) < 2 ^ 64
      \<and> 4 \<le> length (file_name_of (m_strFilename (config ?d)))"
    by (simp add: name sample_file_name) (simp add: sample_emu_def sample_config_def)
  with FindMapFile_title_id [of ?d sample_ext 0]
  have "\<exists>existing writable. FindMapFile sample_ext ?d
      = Inr (existing, writable, without_extension (file_name_of (m_strFilename (config ?d))))"
    by blast
  then have executable: "\<exists>existing writable. FindMapFile sample_ext ?d
      = Inr (existing, writable, ''Foo'')"
    by (simp add: name sample_file_name without_extension_def)
  have "m_BootType (config ?n) = BOOT_WII_NAND
      \<and> GetNANDLoader sample_ext (m_strFilename (config ?n)) = Some 0x0001000248414241"
    by (simp add: sample_emu_def sample_config_def sample_ext_def)
  with FindMapFile_title_id [of ?n sample_ext "0x0001000248414241"]
  have "\<exists>existing writable. FindMapFile sample_ext ?n
      = Inr (existing, writable,
             hex_group (unat (0x0001000248414241 :: u64) div 2 ^ 32) @ ''_''
               @ hex_group (unat (0x0001000248414241 :: u64) mod 2 ^ 32))"
    by blast
  then have installed: "\<exists>existing writable. FindMapFile sample_ext ?n
      = Inr (existing, writable, ''00010002_48414241'')"
    by (simp only: sample_title_groups) simp
  from executable installed show ?thesis
    by (rule conjI)
qed

lemma FindMapFile_sample_executable:
  "FindMapFile sample_ext (sample_emu (sample_config BOOT_DOL ''C:/games/Foo.dol'') 0)
     = Inr (None, ''User/Maps/Foo.map'', ''Foo'')"
  by (simp add: FindMapFile_def title_id_str_def dol_elf_title_def find_last_of_def npos_def
      substr_def sample_emu_def sample_config_def sample_ext_def)

lemma dol_elf_title_backslash:
  "dol_elf_title ([CHR ''C'', CHR '':'', CHR 0x5C] @ ''games'' @ [CHR 0x5C] @ ''Foo.elf'')
     = Inr ''Foo''"
  by (simp add: dol_elf_title_def find_last_of_def npos_def substr_def)

section \<open>Properties of BootUp\<close>

lemma invoke_config: "config (snd (invoke x c s)) = config s"
  by (simp add: invoke_def)

lemma invoke_volume: "volume (snd (invoke x c s)) = volume s"
  by (simp add: invoke_def)

lemma invoke_trace: "trace (snd (invoke x c s)) = trace s @ [c]"
  by (simp add: invoke_def)

lemma invoke_answer: "fst (invoke x c s) = answer x c s"
  by (simp add: invoke_def)

lemma notify_config: "config (notify c s) = config s"
  by (simp add: notify_def)

lemma notify_volume: "volume (notify c s) = volume s"
  by (simp add: notify_def)

lemma notify_trace: "trace (notify c s) = trace s @ [c]"
  by (simp add: notify_def)

lemmas call_simps =
  invoke_config invoke_volume invoke_trace invoke_answer notify_config notify_volume notify_trace

lemma load_map_and_patch_Inr:
  assumes "title_id_str x (config s) = Inr title"
  shows "\<exists>s' t. load_map_and_patch x s = Inr s' \<and> config s' = config s
    \<and> volume s' = volume s \<and> trace s' = trace s @ t \<and> set t \<subseteq> map_calls"
proof (cases "search_maps x
     [GetUserPath_D_MAPS_IDX x, GetSysDirectory x @ MAPS_DIR x @ DIR_SEP x] title")
  case None
  then have "load_map_and_patch x s = Inr s"
    using assms by (simp add: load_map_and_patch_def LoadMapFromFilename_def FindMapFile_def)
  then show ?thesis by simp
next
  case (Some f)
  show ?thesis
  proof (cases "answer x (SymbolDB_LoadMap f) s")
    case True
    then have "load_map_and_patch x s
      = Inr (snd (invoke x HLE_PatchFunctions
               (snd (invoke x Host_NotifyMapLoaded (snd (invoke x (SymbolDB_LoadMap f) s))))))"
      using assms Some
      by (simp add: load_map_and_patch_def LoadMapFromFilename_def FindMapFile_def
          split_beta invoke_answer)
    then show ?thesis
      by (intro exI [of _ "snd (invoke x HLE_PatchFunctions
               (snd (invoke x Host_NotifyMapLoaded (snd (invoke x (SymbolDB_LoadMap f) s)))))"]
          exI [of _ "[SymbolDB_LoadMap f, Host_NotifyMapLoaded, HLE_PatchFunctions]"])
        (simp add: call_simps map_calls_def)
  next
    case False
    then have "load_map_and_patch x s = Inr (snd (invoke x (SymbolDB_LoadMap f) s))"
      using assms Some
      by (simp add: load_map_and_patch_def LoadMapFromFilename_def FindMapFile_def
          split_beta invoke_answer)
    then show ?thesis
      by (intro exI [of _ "snd (invoke x (SymbolDB_LoadMap f) s)"]
          exI [of _ "[SymbolDB_LoadMap f]"])
        (simp add: call_simps map_calls_def)
  qed
qed

lemma title_id_str_game_id:
  assumes "m_BootType para \<noteq> BOOT_DOL" and "m_BootType para \<noteq> BOOT_ELF"
  shows "\<exists>title. title_id_str x para = Inr title"
  using assms by (cases "m_BootType para") (simp_all add: title_id_str_def split: option.splits)


lemma Load_BS2_read_fails:
  "ReadFileToString x path = None \<Longrightarrow> Load_BS2 x path s = Inr (False, s)"
  by (simp add: Load_BS2_def)

lemma BootUp_prelude:
  "\<exists>p. config p = config s \<and> volume p = volume s
     \<and> trace p = trace s @
         [NOTICE_LOG ''Booting %s'' (m_strFilename (config s)), SymbolDB_Clear,
          VideoInterface_Preset (IsNTSC x (m_region (config s))
            \<or> (bWii (config s) \<and> bPAL60 (config s)))]
     \<and> BootUp x s =
         (case dispatch x p of
            Inl e \<Rightarrow> Inl e
          | Inr (ok, s4) \<Rightarrow>
              if ok then Inr (True, snd (invoke x HLE_PatchFixedFunctions s4))
              else Inr (False, s4))"
  by (rule exI [of _ "snd (invoke x (VideoInterface_Preset
         (IsNTSC x (m_region (config s)) \<or> (bWii (config s) \<and> bPAL60 (config s))))
         (snd (invoke x SymbolDB_Clear
            (notify (NOTICE_LOG ''Booting %s'' (m_strFilename (config s))) s))))"])
    (simp add: BootUp_def Let_def call_simps)

lemma scan_HLE_functions_props:
  "config (scan_HLE_functions x s) = config s"
  "volume (scan_HLE_functions x s) = volume s"
  "trace (scan_HLE_functions x s) = trace s @
     (if bHLE_BS2 (config s) \<and> \<not> bEnableDebugging (config s)
      then [PPCAnalyst_FindFunctions 0x80004000 0x811fffff,
            SignatureDB_Load (GetSysDirectory x @ TOTALDB x)]
           @ (if answer x (SignatureDB_Load (GetSysDirectory x @ TOTALDB x))
                   (snd (invoke x (PPCAnalyst_FindFunctions 0x80004000 0x811fffff) s))
              then [SignatureDB_Apply, HLE_PatchFunctions, SignatureDB_Clear] else [])
      else [])"
  by (simp_all add: scan_HLE_functions_def Let_def split_beta call_simps)

lemma bring_up_ISO_high_level:
  assumes "bHLE_BS2 (config s) \<or> ReadFileToString x (m_strBootROM (config s)) = None"
  shows "bring_up_ISO x s = Inr (snd (invoke x (EmulatedBS2 (bWii (config s))) s))"
  using assms by (auto simp add: bring_up_ISO_def Load_BS2_read_fails)


lemma BootUp_ISO_high_level:
  assumes boot: "m_BootType (config p) = BOOT_ISO"
    and disc: "CreateVolumeFromFilename x (m_strFilename (config p)) = Some vol"
    and bring: "bHLE_BS2 (config p) \<or> ReadFileToString x (m_strBootROM (config p)) = None"
  shows "\<exists>s' t st. BootUp_ISO x p = Inr (True, s')
    \<and> set t \<subseteq> map_calls
    \<and> trace s' = trace p
        @ [DVDInterface_SetVolumeName (m_strFilename (config p))]
        @ (if (GetVolumeType vol = WII_DISC) \<noteq> bWii (config p)
           then [PanicAlertT Starting_ISO_in_wrong_console_mode] else [])
        @ [EmulatedBS2 (GetVolumeType vol = WII_DISC), PatchEngine_LoadPatches]
        @ (if bHLE_BS2 (config p) \<and> \<not> bEnableDebugging (config p)
           then [PPCAnalyst_FindFunctions 0x80004000 0x811fffff,
                 SignatureDB_Load (GetSysDirectory x @ TOTALDB x)]
                @ (if answer x (SignatureDB_Load (GetSysDirectory x @ TOTALDB x)) st
                   then [SignatureDB_Apply, HLE_PatchFunctions, SignatureDB_Clear] else [])
           else [])
        @ t"
proof -
  define wii where "wii = (GetVolumeType vol = WII_DISC)"
  define s1 where "s1 = SetVolumeName x (m_strFilename (config p)) p"
  define s2 where "s2 = (if wii \<noteq> bWii (config s1)
      then notify (PanicAlertT Starting_ISO_in_wrong_console_mode) s1 else s1)"
  define s3 where "s3 = s2\<lparr>config := (config s2)\<lparr>bWii := wii\<rparr>\<rparr>"
  define s4 where "s4 = snd (invoke x (EmulatedBS2 wii) s3)"
  define s5 where "s5 = snd (invoke x PatchEngine_LoadPatches s4)"
  define s6 where "s6 = scan_HLE_functions x s5"
  have v1: "volume s1 = Some vol" and c1: "config s1 = config p"
    and t1: "trace s1 = trace p @ [DVDInterface_SetVolumeName (m_strFilename (config p))]"
    by (simp_all add: s1_def SetVolumeName_def disc)
  have c2: "config s2 = config p"
    and t2: "trace s2 = trace s1 @ (if wii \<noteq> bWii (config p)
           then [PanicAlertT Starting_ISO_in_wrong_console_mode] else [])"
    by (simp_all add: s2_def c1 call_simps)
  have c3: "config s3 = (config p)\<lparr>bWii := wii\<rparr>" and t3: "trace s3 = trace s2"
    by (simp_all add: s3_def c2)
  have "bHLE_BS2 (config s3) \<or> ReadFileToString x (m_strBootROM (config s3)) = None"
    using bring by (simp add: c3)
  then have "bring_up_ISO x s3 = Inr (snd (invoke x (EmulatedBS2 (bWii (config s3))) s3))"
    by (rule bring_up_ISO_high_level)
  then have b: "bring_up_ISO x s3 = Inr s4"
    by (simp add: s4_def c3)
  have c4: "config s4 = config s3" and t4: "trace s4 = trace s3 @ [EmulatedBS2 wii]"
    by (simp_all add: s4_def call_simps)
  have c5: "config s5 = config s3" and t5: "trace s5 = trace s4 @ [PatchEngine_LoadPatches]"
    by (simp_all add: s5_def call_simps c4)
  have c6: "config s6 = config s3"
    by (simp add: s6_def scan_HLE_functions_props c5)
  have t6: "trace s6 = trace s5 @
     (if bHLE_BS2 (config p) \<and> \<not> bEnableDebugging (config p)
      then [PPCAnalyst_FindFunctions 0x80004000 0x811fffff,
            SignatureDB_Load (GetSysDirectory x @ TOTALDB x)]
           @ (if answer x (SignatureDB_Load (GetSysDirectory x @ TOTALDB x))
                   (snd (invoke x (PPCAnalyst_FindFunctions 0x80004000 0x811fffff) s5))
              then [SignatureDB_Apply, HLE_PatchFunctions, SignatureDB_Clear] else [])
      else [])"
    by (simp add: s6_def scan_HLE_functions_props c5 c3)
  have "m_BootType (config s6) = BOOT_ISO"
    by (simp add: c6 c3 boot)
  then have "title_id_str x (config s6) = Inr (GetGameID (config s6))"
    by (simp add: title_id_str_def)
  from load_map_and_patch_Inr [OF this]
  obtain s7 t where m: "load_map_and_patch x s6 = Inr s7"
    and t7: "trace s7 = trace s6 @ t" and sub: "set t \<subseteq> map_calls"
    by blast
  have run: "BootUp_ISO x p = Inr (True, s7)"
    unfolding BootUp_ISO_def Let_def
    by (simp only: s1_def [symmetric] v1 option.case wii_def [symmetric] s2_def [symmetric]
        s3_def [symmetric] b sum.case s5_def [symmetric] s6_def [symmetric] m)
  have "trace s7 = trace p
        @ [DVDInterface_SetVolumeName (m_strFilename (config p))]
        @ (if wii \<noteq> bWii (config p)
           then [PanicAlertT Starting_ISO_in_wrong_console_mode] else [])
        @ [EmulatedBS2 wii, PatchEngine_LoadPatches]
        @ (if bHLE_BS2 (config p) \<and> \<not> bEnableDebugging (config p)
           then [PPCAnalyst_FindFunctions 0x80004000 0x811fffff,
                 SignatureDB_Load (GetSysDirectory x @ TOTALDB x)]
                @ (if answer x (SignatureDB_Load (GetSysDirectory x @ TOTALDB x))
                        (snd (invoke x (PPCAnalyst_FindFunctions 0x80004000 0x811fffff) s5))
                   then [SignatureDB_Apply, HLE_PatchFunctions, SignatureDB_Clear] else [])
           else [])
        @ t"
    by (simp only: t7 t6 t5 t4 t3 t2 t1) simp
  with run sub show ?thesis
    unfolding wii_def by blast
qed


lemma map_calls_no_scan: "set t \<subseteq> map_calls \<Longrightarrow> PPCAnalyst_FindFunctions a b \<notin> set t"
  by (auto simp add: map_calls_def)

lemma BootUp_ISO_run:
  assumes boot: "m_BootType (config s) = BOOT_ISO"
    and disc: "CreateVolumeFromFilename x (m_strFilename (config s)) = Some vol"
    and bring: "bHLE_BS2 (config s) \<or> ReadFileToString x (m_strBootROM (config s)) = None"
  shows "\<exists>s' t st. BootUp x s = Inr (True, s')
    \<and> set t \<subseteq> map_calls
    \<and> trace s' = trace s
        @ [NOTICE_LOG ''Booting %s'' (m_strFilename (config s)), SymbolDB_Clear,
           VideoInterface_Preset (IsNTSC x (m_region (config s))
             \<or> (bWii (config s) \<and> bPAL60 (config s))),
           DVDInterface_SetVolumeName (m_strFilename (config s))]
        @ (if (GetVolumeType vol = WII_DISC) \<noteq> bWii (config s)
           then [PanicAlertT Starting_ISO_in_wrong_console_mode] else [])
        @ [EmulatedBS2 (GetVolumeType vol = WII_DISC), PatchEngine_LoadPatches]
        @ (if bHLE_BS2 (config s) \<and> \<not> bEnableDebugging (config s)
           then [PPCAnalyst_FindFunctions 0x80004000 0x811fffff,
                 SignatureDB_Load (GetSysDirectory x @ TOTALDB x)]
                @ (if answer x (SignatureDB_Load (GetSysDirectory x @ TOTALDB x)) st
                   then [SignatureDB_Apply, HLE_PatchFunctions, SignatureDB_Clear] else [])
           else [])
        @ t @ [HLE_PatchFixedFunctions]"
proof -
  obtain p where cp: "config p = config s"
    and tp: "trace p = trace s @
         [NOTICE_LOG ''Booting %s'' (m_strFilename (config s)), SymbolDB_Clear,
          VideoInterface_Preset (IsNTSC x (m_region (config s))
            \<or> (bWii (config s) \<and> bPAL60 (config s)))]"
    and run: "BootUp x s =
         (case dispatch x p of
            Inl e \<Rightarrow> Inl e
          | Inr (ok, s4) \<Rightarrow>
              if ok then Inr (True, snd (invoke x HLE_PatchFixedFunctions s4))
              else Inr (False, s4))"
    using BootUp_prelude [of s x] by blast
  have "m_BootType (config p) = BOOT_ISO"
    and "CreateVolumeFromFilename x (m_strFilename (config p)) = Some vol"
    and "bHLE_BS2 (config p) \<or> ReadFileToString x (m_strBootROM (config p)) = None"
    using boot disc bring by (simp_all add: cp)
  from BootUp_ISO_high_level [OF this]
  obtain s' t st where iso: "BootUp_ISO x p = Inr (True, s')"
    and sub: "set t \<subseteq> map_calls"
    and ts: "trace s' = trace p
        @ [DVDInterface_SetVolumeName (m_strFilename (config p))]
        @ (if (GetVolumeType vol = WII_DISC) \<noteq> bWii (config p)
           then [PanicAlertT Starting_ISO_in_wrong_console_mode] else [])
        @ [EmulatedBS2 (GetVolumeType vol = WII_DISC), PatchEngine_LoadPatches]
        @ (if bHLE_BS2 (config p) \<and> \<not> bEnableDebugging (config p)
           then [PPCAnalyst_FindFunctions 0x80004000 0x811fffff,
                 SignatureDB_Load (GetSysDirectory x @ TOTALDB x)]
                @ (if answer x (SignatureDB_Load (GetSysDirectory x @ TOTALDB x)) st
                   then [SignatureDB_Apply, HLE_PatchFunctions, SignatureDB_Clear] else [])
           else [])
        @ t"
    by blast
  have "dispatch x p = Inr (True, s')"
    using iso boot by (simp add: dispatch_def cp)
  then have r: "BootUp x s = Inr (True, snd (invoke x HLE_PatchFixedFunctions s'))"
    by (simp add: run)
  have "trace (snd (invoke x HLE_PatchFixedFunctions s')) = trace s' @ [HLE_PatchFixedFunctions]"
    by (rule invoke_trace)
  with r sub ts show ?thesis
    unfolding tp cp by (intro exI [of _ "snd (invoke x HLE_PatchFixedFunctions s')"]
        exI [of _ t] exI [of _ st]) simp
qed

lemma BootUp_BS2_read_fails:
  assumes "m_BootType (config s) = BOOT_BS2"
    and "ReadFileToString x (m_strBootROM (config s)) = None"
  shows "\<exists>s'. BootUp x s = Inr (False, s')
    \<and> trace s' = trace s @
         [NOTICE_LOG ''Booting %s'' (m_strFilename (config s)), SymbolDB_Clear,
          VideoInterface_Preset (IsNTSC x (m_region (config s))
            \<or> (bWii (config s) \<and> bPAL60 (config s)))]"
proof -
  obtain p where cp: "config p = config s"
    and tp: "trace p = trace s @
         [NOTICE_LOG ''Booting %s'' (m_strFilename (config s)), SymbolDB_Clear,
          VideoInterface_Preset (IsNTSC x (m_region (config s))
            \<or> (bWii (config s) \<and> bPAL60 (config s)))]"
    and run: "BootUp x s =
         (case dispatch x p of
            Inl e \<Rightarrow> Inl e
          | Inr (ok, s4) \<Rightarrow>
              if ok then Inr (True, snd (invoke x HLE_PatchFixedFunctions s4))
              else Inr (False, s4))"
    using BootUp_prelude [of s x] by blast
  have "Load_BS2 x (m_strBootROM (config p)) p = Inr (False, p)"
    using assms(2) by (simp add: cp Load_BS2_read_fails)
  then have "dispatch x p = Inr (False, p)"
    using assms(1) by (simp add: dispatch_def cp BootUp_BS2_def)
  then have "BootUp x s = Inr (False, p)"
    by (simp add: run)
  with tp show ?thesis by blast
qed


text \<open>C8. A failed firmware load is fatal in the Firmware boot type and recoverable in the
  DiscImage boot type. With the boot type \<open>BOOT_BS2\<close> and an unreadable firmware file,
  \<open>BootUp\<close> returns false after the three calls that precede the dispatch: no high-level
  stub is installed and the final fixed-function patches are not applied. With the boot
  type \<open>BOOT_ISO\<close>, a disc that mounts, firmware requested and the same unreadable file,
  \<open>BootUp\<close> installs the high-level stub \<open>EmulatedBS2\<close> for the detected platform and
  returns true.\<close>

theorem BootUp_firmware_failure:
  "(m_BootType (config s) = BOOT_BS2
      \<and> ReadFileToString x (m_strBootROM (config s)) = None
    \<longrightarrow> (\<exists>s'. BootUp x s = Inr (False, s')
          \<and> trace s' = trace s @
               [NOTICE_LOG ''Booting %s'' (m_strFilename (config s)), SymbolDB_Clear,
                VideoInterface_Preset (IsNTSC x (m_region (config s))
                  \<or> (bWii (config s) \<and> bPAL60 (config s)))]))
   \<and> (m_BootType (config s) = BOOT_ISO
      \<and> CreateVolumeFromFilename x (m_strFilename (config s)) = Some vol
      \<and> \<not> bHLE_BS2 (config s)
      \<and> ReadFileToString x (m_strBootROM (config s)) = None
    \<longrightarrow> (\<exists>s' pre post. BootUp x s = Inr (True, s')
          \<and> trace s' = trace s @ pre @ [EmulatedBS2 (GetVolumeType vol = WII_DISC)] @ post))"
proof (intro conjI impI)
  assume "m_BootType (config s) = BOOT_BS2
      \<and> ReadFileToString x (m_strBootROM (config s)) = None"
  then show "\<exists>s'. BootUp x s = Inr (False, s')
          \<and> trace s' = trace s @
               [NOTICE_LOG ''Booting %s'' (m_strFilename (config s)), SymbolDB_Clear,
                VideoInterface_Preset (IsNTSC x (m_region (config s))
                  \<or> (bWii (config s) \<and> bPAL60 (config s)))]"
    using BootUp_BS2_read_fails [of s x] by blast
next
  assume a: "m_BootType (config s) = BOOT_ISO
      \<and> CreateVolumeFromFilename x (m_strFilename (config s)) = Some vol
      \<and> \<not> bHLE_BS2 (config s)
      \<and> ReadFileToString x (m_strBootROM (config s)) = None"
  then have "bHLE_BS2 (config s) \<or> ReadFileToString x (m_strBootROM (config s)) = None"
    by simp
  with a BootUp_ISO_run [of s x vol]
  obtain s' t where run: "BootUp x s = Inr (True, s')"
    and ts: "trace s' = trace s
        @ [NOTICE_LOG ''Booting %s'' (m_strFilename (config s)), SymbolDB_Clear,
           VideoInterface_Preset (IsNTSC x (m_region (config s))
             \<or> (bWii (config s) \<and> bPAL60 (config s))),
           DVDInterface_SetVolumeName (m_strFilename (config s))]
        @ (if (GetVolumeType vol = WII_DISC) \<noteq> bWii (config s)
           then [PanicAlertT Starting_ISO_in_wrong_console_mode] else [])
        @ [EmulatedBS2 (GetVolumeType vol = WII_DISC), PatchEngine_LoadPatches]
        @ t @ [HLE_PatchFixedFunctions]"
    by auto
  show "\<exists>s' pre post. BootUp x s = Inr (True, s')
          \<and> trace s' = trace s @ pre @ [EmulatedBS2 (GetVolumeType vol = WII_DISC)] @ post"
    using run
    by (intro exI [of _ s']
        exI [of _ "[NOTICE_LOG ''Booting %s'' (m_strFilename (config s)), SymbolDB_Clear,
           VideoInterface_Preset (IsNTSC x (m_region (config s))
             \<or> (bWii (config s) \<and> bPAL60 (config s))),
           DVDInterface_SetVolumeName (m_strFilename (config s))]
        @ (if (GetVolumeType vol = WII_DISC) \<noteq> bWii (config s)
           then [PanicAlertT Starting_ISO_in_wrong_console_mode] else [])"]
        exI [of _ "[PatchEngine_LoadPatches] @ t @ [HLE_PatchFixedFunctions]"])
      (simp add: ts)
qed

lemma sample_disc: "CreateVolumeFromFilename sample_ext ''game.iso'' = Some sample_volume"
  by (simp add: sample_ext_def)

theorem BootUp_firmware_failure_witness:
  "returned (BootUp sample_ext (sample_emu (sample_config BOOT_BS2 ''ipl.bin'') 0)) = Some False
   \<and> returned (BootUp sample_ext (sample_emu (sample_config BOOT_ISO ''game.iso'') 0)) = Some True
   \<and> EmulatedBS2 False
       \<in> set (trace (state_after (BootUp sample_ext (sample_emu (sample_config BOOT_ISO ''game.iso'') 0))
                 (sample_emu (sample_config BOOT_ISO ''game.iso'') 0)))"
proof -
  let ?b = "sample_emu (sample_config BOOT_BS2 ''ipl.bin'') 0"
  let ?i = "sample_emu (sample_config BOOT_ISO ''game.iso'') 0"
  have "m_BootType (config ?b) = BOOT_BS2
      \<and> ReadFileToString sample_ext (m_strBootROM (config ?b)) = None"
    by (simp add: sample_emu_def sample_config_def sample_ipl_missing)
  with BootUp_firmware_failure [of ?b sample_ext sample_volume]
  have firmware: "returned (BootUp sample_ext ?b) = Some False"
    by (auto simp add: returned_def)
  have "m_BootType (config ?i) = BOOT_ISO
      \<and> CreateVolumeFromFilename sample_ext (m_strFilename (config ?i)) = Some sample_volume
      \<and> \<not> bHLE_BS2 (config ?i)
      \<and> ReadFileToString sample_ext (m_strBootROM (config ?i)) = None"
    by (simp add: sample_emu_def sample_config_def sample_ipl_missing sample_disc)
  with BootUp_firmware_failure [of ?i sample_ext sample_volume]
  obtain s' pre post where "BootUp sample_ext ?i = Inr (True, s')"
    and "trace s' = trace ?i @ pre @ [EmulatedBS2 (GetVolumeType sample_volume = WII_DISC)] @ post"
    by blast
  then have "returned (BootUp sample_ext ?i) = Some True
    \<and> EmulatedBS2 False \<in> set (trace (state_after (BootUp sample_ext ?i) ?i))"
    by (simp add: returned_def state_after_def sample_volume_def)
  with firmware show ?thesis by blast
qed


text \<open>C9, as amended. In every DiscImage boot whose disc mounts, in which high-level
  firmware bring-up is requested by the configuration (\<open>bHLE_BS2\<close>) and debugging is
  disabled, \<open>BootUp\<close> scans the guest range \<open>0x80004000\<close> to \<open>0x811fffff\<close> for function
  signatures and loads the signature database; if the database is present it applies it,
  patches the matched functions and clears it. When high-level bring-up is not requested
  and is only reached as the fallback after a failed firmware load, the stub is installed
  and no scan is made.\<close>

theorem BootUp_ISO_signature_scan:
  "(m_BootType (config s) = BOOT_ISO
      \<and> CreateVolumeFromFilename x (m_strFilename (config s)) = Some vol
      \<and> bHLE_BS2 (config s) \<and> \<not> bEnableDebugging (config s)
      \<and> (\<forall>st. answer x (SignatureDB_Load (GetSysDirectory x @ TOTALDB x)) st = present)
    \<longrightarrow> (\<exists>s' pre post. BootUp x s = Inr (True, s')
          \<and> trace s' = trace s @ pre
              @ [PPCAnalyst_FindFunctions 0x80004000 0x811fffff,
                 SignatureDB_Load (GetSysDirectory x @ TOTALDB x)]
              @ (if present then [SignatureDB_Apply, HLE_PatchFunctions, SignatureDB_Clear]
                 else [])
              @ post))
   \<and> (m_BootType (config s) = BOOT_ISO
      \<and> CreateVolumeFromFilename x (m_strFilename (config s)) = Some vol
      \<and> \<not> bHLE_BS2 (config s)
      \<and> ReadFileToString x (m_strBootROM (config s)) = None
    \<longrightarrow> (\<exists>s' new. BootUp x s = Inr (True, s') \<and> trace s' = trace s @ new
          \<and> EmulatedBS2 (GetVolumeType vol = WII_DISC) \<in> set new
          \<and> (\<forall>a b. PPCAnalyst_FindFunctions a b \<notin> set new)))"
proof (intro conjI impI)
  assume a: "m_BootType (config s) = BOOT_ISO
      \<and> CreateVolumeFromFilename x (m_strFilename (config s)) = Some vol
      \<and> bHLE_BS2 (config s) \<and> \<not> bEnableDebugging (config s)
      \<and> (\<forall>st. answer x (SignatureDB_Load (GetSysDirectory x @ TOTALDB x)) st = present)"
  then have "bHLE_BS2 (config s) \<or> ReadFileToString x (m_strBootROM (config s)) = None"
    by simp
  with a BootUp_ISO_run [of s x vol]
  obtain s' t where run: "BootUp x s = Inr (True, s')"
    and ts: "trace s' = trace s
        @ [NOTICE_LOG ''Booting %s'' (m_strFilename (config s)), SymbolDB_Clear,
           VideoInterface_Preset (IsNTSC x (m_region (config s))
             \<or> (bWii (config s) \<and> bPAL60 (config s))),
           DVDInterface_SetVolumeName (m_strFilename (config s))]
        @ (if (GetVolumeType vol = WII_DISC) \<noteq> bWii (config s)
           then [PanicAlertT Starting_ISO_in_wrong_console_mode] else [])
        @ [EmulatedBS2 (GetVolumeType vol = WII_DISC), PatchEngine_LoadPatches]
        @ ([PPCAnalyst_FindFunctions 0x80004000 0x811fffff,
            SignatureDB_Load (GetSysDirectory x @ TOTALDB x)]
           @ (if present then [SignatureDB_Apply, HLE_PatchFunctions, SignatureDB_Clear]
              else []))
        @ t @ [HLE_PatchFixedFunctions]"
    by auto
  show "\<exists>s' pre post. BootUp x s = Inr (True, s')
          \<and> trace s' = trace s @ pre
              @ [PPCAnalyst_FindFunctions 0x80004000 0x811fffff,
                 SignatureDB_Load (GetSysDirectory x @ TOTALDB x)]
              @ (if present then [SignatureDB_Apply, HLE_PatchFunctions, SignatureDB_Clear]
                 else [])
              @ post"
    using run
    by (intro exI [of _ s']
        exI [of _ "[NOTICE_LOG ''Booting %s'' (m_strFilename (config s)), SymbolDB_Clear,
           VideoInterface_Preset (IsNTSC x (m_region (config s))
             \<or> (bWii (config s) \<and> bPAL60 (config s))),
           DVDInterface_SetVolumeName (m_strFilename (config s))]
        @ (if (GetVolumeType vol = WII_DISC) \<noteq> bWii (config s)
           then [PanicAlertT Starting_ISO_in_wrong_console_mode] else [])
        @ [EmulatedBS2 (GetVolumeType vol = WII_DISC), PatchEngine_LoadPatches]"]
        exI [of _ "t @ [HLE_PatchFixedFunctions]"])
      (simp add: ts)
next
  assume a: "m_BootType (config s) = BOOT_ISO
      \<and> CreateVolumeFromFilename x (m_strFilename (config s)) = Some vol
      \<and> \<not> bHLE_BS2 (config s)
      \<and> ReadFileToString x (m_strBootROM (config s)) = None"
  then have "bHLE_BS2 (config s) \<or> ReadFileToString x (m_strBootROM (config s)) = None"
    by simp
  with a BootUp_ISO_run [of s x vol]
  obtain s' t where run: "BootUp x s = Inr (True, s')"
    and sub: "set t \<subseteq> map_calls"
    and ts: "trace s' = trace s
        @ [NOTICE_LOG ''Booting %s'' (m_strFilename (config s)), SymbolDB_Clear,
           VideoInterface_Preset (IsNTSC x (m_region (config s))
             \<or> (bWii (config s) \<and> bPAL60 (config s))),
           DVDInterface_SetVolumeName (m_strFilename (config s))]
        @ (if (GetVolumeType vol = WII_DISC) \<noteq> bWii (config s)
           then [PanicAlertT Starting_ISO_in_wrong_console_mode] else [])
        @ [EmulatedBS2 (GetVolumeType vol = WII_DISC), PatchEngine_LoadPatches]
        @ t @ [HLE_PatchFixedFunctions]"
    by auto
  let ?new = "[NOTICE_LOG ''Booting %s'' (m_strFilename (config s)), SymbolDB_Clear,
           VideoInterface_Preset (IsNTSC x (m_region (config s))
             \<or> (bWii (config s) \<and> bPAL60 (config s))),
           DVDInterface_SetVolumeName (m_strFilename (config s))]
        @ (if (GetVolumeType vol = WII_DISC) \<noteq> bWii (config s)
           then [PanicAlertT Starting_ISO_in_wrong_console_mode] else [])
        @ [EmulatedBS2 (GetVolumeType vol = WII_DISC), PatchEngine_LoadPatches]
        @ t @ [HLE_PatchFixedFunctions]"
  have "trace s' = trace s @ ?new"
    by (simp add: ts)
  moreover have "EmulatedBS2 (GetVolumeType vol = WII_DISC) \<in> set ?new"
    by simp
  moreover have "\<forall>a b. PPCAnalyst_FindFunctions a b \<notin> set ?new"
    using map_calls_no_scan [OF sub] by simp
  ultimately show "\<exists>s' new. BootUp x s = Inr (True, s') \<and> trace s' = trace s @ new
          \<and> EmulatedBS2 (GetVolumeType vol = WII_DISC) \<in> set new
          \<and> (\<forall>a b. PPCAnalyst_FindFunctions a b \<notin> set new)"
    using run by blast
qed


lemmas BootUp_defs =
  BootUp_def dispatch_def BootUp_ISO_def BootUp_WII_NAND_def bring_up_ISO_def
  scan_HLE_functions_def load_map_and_patch_def LoadMapFromFilename_def FindMapFile_def
  title_id_str_def mount_root_or_default_def SetVolumeName_def invoke_def notify_def
  Load_BS2_def Let_def

lemmas sample_defs =
  sample_emu_def sample_config_def sample_ext_def sample_volume_def

text \<open>C9 as stated, with the scan also after the fallback, does not hold: a DiscImage
  boot with debugging disabled, firmware requested and the firmware file unreadable
  installs the high-level stub and makes no call of \<open>PPCAnalyst::FindFunctions\<close>; the
  trace of the whole boot is the seven calls below.\<close>

theorem BootUp_ISO_fallback_not_scanned:
  "\<not> bEnableDebugging (config (sample_emu (sample_config BOOT_ISO ''game.iso'') 0))
   \<and> BootUp sample_ext (sample_emu (sample_config BOOT_ISO ''game.iso'') 0)
     = Inr (True,
         (sample_emu (sample_config BOOT_ISO ''game.iso'') 0)
           \<lparr>volume := Some sample_volume,
            trace := [NOTICE_LOG ''Booting %s'' ''game.iso'', SymbolDB_Clear,
                      VideoInterface_Preset False, DVDInterface_SetVolumeName ''game.iso'',
                      EmulatedBS2 False, PatchEngine_LoadPatches, HLE_PatchFixedFunctions]\<rparr>)"
  by (simp add: BootUp_defs sample_defs)

text \<open>C1. For the InstalledTitle boot type the claim is that a container that fails to
  resolve or boot makes \<open>BootUp\<close> return false after an alert. \<open>BootUp\<close> discards what
  \<open>Boot_WiiWAD\<close> returns: with no valid loader at the path and \<open>Boot_WiiWAD\<close> returning
  false, it goes on to load patches, applies the final fixed-function patches and returns
  true, and it raises no alert.\<close>

theorem BootUp_WII_NAND_ignores_failure:
  "GetNANDLoader sample_ext ''absent.wad'' = None
   \<and> \<not> answer sample_ext (Boot_WiiWAD ''absent.wad'')
        (sample_emu (sample_config BOOT_WII_NAND ''absent.wad'') 0)
   \<and> BootUp sample_ext (sample_emu (sample_config BOOT_WII_NAND ''absent.wad'') 0)
     = Inr (True,
         (sample_emu (sample_config BOOT_WII_NAND ''absent.wad'') 0)
           \<lparr>trace := [NOTICE_LOG ''Booting %s'' ''absent.wad'', SymbolDB_Clear,
                      VideoInterface_Preset False, Boot_WiiWAD ''absent.wad'',
                      PatchEngine_LoadPatches, HLE_PatchFixedFunctions]\<rparr>)"
  by (simp add: BootUp_defs sample_defs)

text \<open>The same for every configuration and every behaviour of the collaborators: the
  InstalledTitle case never returns false.\<close>

lemma BootUp_WII_NAND_returns_true:
  assumes "m_BootType (config s) = BOOT_WII_NAND"
  shows "\<exists>s'. BootUp x s = Inr (True, s')"
proof -
  obtain p where cp: "config p = config s"
    and run: "BootUp x s =
         (case dispatch x p of
            Inl e \<Rightarrow> Inl e
          | Inr (ok, s4) \<Rightarrow>
              if ok then Inr (True, snd (invoke x HLE_PatchFixedFunctions s4))
              else Inr (False, s4))"
    using BootUp_prelude [of s x] by blast
  define s2 where "s2 = snd (invoke x PatchEngine_LoadPatches
      (snd (invoke x (Boot_WiiWAD (m_strFilename (config p))) p)))"
  have "m_BootType (config s2) \<noteq> BOOT_DOL" and "m_BootType (config s2) \<noteq> BOOT_ELF"
    using assms by (simp_all add: s2_def call_simps cp)
  from title_id_str_game_id [OF this]
  obtain title where "title_id_str x (config s2) = Inr title" by blast
  from load_map_and_patch_Inr [OF this]
  obtain s3 where l: "load_map_and_patch x s2 = Inr s3" by blast
  have "BootUp_WII_NAND x p = Inr (True, mount_root_or_default x False True [] [] s3)"
    unfolding BootUp_WII_NAND_def Let_def
    by (simp only: s2_def [symmetric] l sum.case)
  then have "dispatch x p = Inr (True, mount_root_or_default x False True [] [] s3)"
    using assms by (simp add: dispatch_def cp)
  then show ?thesis
    by (simp add: run)
qed


theorem BootUp_ISO_signature_scan_witness:
  "\<exists>s' pre post.
     BootUp (sample_ext\<lparr>answer := (\<lambda>c s. c = SignatureDB_Load ''Sys/totaldb.dsy'')\<rparr>)
       (sample_emu ((sample_config BOOT_ISO ''game.iso'')\<lparr>bHLE_BS2 := True\<rparr>) 0)
       = Inr (True, s')
     \<and> trace s' = pre
         @ [PPCAnalyst_FindFunctions 0x80004000 0x811fffff,
            SignatureDB_Load ''Sys/totaldb.dsy'',
            SignatureDB_Apply, HLE_PatchFunctions, SignatureDB_Clear]
         @ post"
proof -
  let ?x = "sample_ext\<lparr>answer := (\<lambda>c s. c = SignatureDB_Load ''Sys/totaldb.dsy'')\<rparr>"
  let ?s = "sample_emu ((sample_config BOOT_ISO ''game.iso'')\<lparr>bHLE_BS2 := True\<rparr>) 0"
  have db: "GetSysDirectory ?x @ TOTALDB ?x = ''Sys/totaldb.dsy''"
    by (simp add: sample_ext_def)
  have "m_BootType (config ?s) = BOOT_ISO
      \<and> CreateVolumeFromFilename ?x (m_strFilename (config ?s)) = Some sample_volume
      \<and> bHLE_BS2 (config ?s) \<and> \<not> bEnableDebugging (config ?s)
      \<and> (\<forall>st. answer ?x (SignatureDB_Load (GetSysDirectory ?x @ TOTALDB ?x)) st = True)"
    by (simp add: sample_emu_def sample_config_def) (simp add: sample_ext_def)
  with BootUp_ISO_signature_scan [of ?s ?x sample_volume True]
  obtain s' pre post where "BootUp ?x ?s = Inr (True, s')"
    and "trace s' = trace ?s @ pre
              @ [PPCAnalyst_FindFunctions 0x80004000 0x811fffff,
                 SignatureDB_Load (GetSysDirectory ?x @ TOTALDB ?x)]
              @ (if True then [SignatureDB_Apply, HLE_PatchFunctions, SignatureDB_Clear]
                 else [])
              @ post"
    by blast
  then have "BootUp ?x ?s = Inr (True, s')
     \<and> trace s' = pre
         @ [PPCAnalyst_FindFunctions 0x80004000 0x811fffff,
            SignatureDB_Load ''Sys/totaldb.dsy'',
            SignatureDB_Apply, HLE_PatchFunctions, SignatureDB_Clear]
         @ post"
    using db by (simp add: sample_emu_def)
  then show ?thesis by blast
qed

end
